theory Spec2Isabelle
  imports Complex_Main "HOL-Library.Word"
begin

section \<open>The OpenAL sound backend of naev (src/sound\_openal.c)\<close>

text \<open>
  The backend multiplexes voices onto a fixed pool of OpenAL sources, reserves sources
  for groups with a timed fade-out, and decodes WAV and Ogg assets into device buffers.
  The development models the file function by function.  C \<open>int\<close> counters and ids are
  \<open>int\<close> (none of them gets near \<open>2^31\<close>), \<open>ALuint\<close> names and tick counts are 32-bit
  words, and \<open>ALfloat\<close>/\<open>double\<close> values are real numbers, rounded where the file
  converts a value to \<open>ALfloat\<close> or computes with it (the volume setter and the fade).
  Initialisation and teardown and the listener are left out.
\<close>

subsection \<open>Types\<close>

type_synonym ALuint = "32 word"
type_synonym ALfloat = real
type_synonym byte = "8 word"

text \<open>The playback state \<open>alGetSourcei(s, AL_SOURCE_STATE)\<close> reports.\<close>

datatype al_source_state = AL_INITIAL | AL_PLAYING | AL_PAUSED | AL_STOPPED

text \<open>The source and buffer parameters the file sets.\<close>

datatype al_param =
  AL_BUFFER | AL_SOURCE_RELATIVE | AL_LOOPING | AL_GAIN | AL_POSITION | AL_VELOCITY

datatype al_format =
  AL_FORMAT_MONO8 | AL_FORMAT_MONO16 | AL_FORMAT_STEREO8 | AL_FORMAT_STEREO16

text \<open>\<open>voice_state_t\<close> of sound.h, by the four enumerators the file uses.\<close>

datatype voice_state_t = VOICE_STOPPED | VOICE_PLAYING | VOICE_FADEOUT | VOICE_DESTROY

definition AL_NONE :: "32 word" where "AL_NONE = 0"
definition AL_FALSE :: "32 word" where "AL_FALSE = 0"
definition AL_TRUE :: "32 word" where "AL_TRUE = 1"

definition SOUND_FADEOUT :: "32 word" where "SOUND_FADEOUT = 100"

subsection \<open>Floating point\<close>

text \<open>
  An \<open>ALfloat\<close> or \<open>double\<close> value is the real number it denotes; infinities and NaN
  are left out.  A conversion to \<open>ALfloat\<close> and an arithmetic operation on two
  \<open>ALfloat\<close>s round to single precision, an operation on \<open>double\<close>s rounds to
  double precision, and the promotion of an \<open>ALfloat\<close> to \<open>double\<close> is exact.  The
  two roundings are a parameter of the functions that convert or compute.
\<close>

record float_ops =
  to_float :: "real \<Rightarrow> real"
  to_double :: "real \<Rightarrow> real"

text \<open>The nearest integer, a tie going to the even one.\<close>

definition rne :: "real \<Rightarrow> int" where
  "rne y =
     (let n = \<lfloor>y\<rfloor>; r = y - of_int n
      in if r < 1 / 2 then n else if 1 / 2 < r then n + 1 else if even n then n else n + 1)"

text \<open>
  IEEE 754 rounding to nearest, ties to even, for a binary format of \<open>p\<close> significant
  bits whose least normal exponent is \<open>emin\<close>: \<open>x\<close> is rounded to a multiple of the
  spacing of the format at \<open>x\<close>.  Overflow to an infinity is left out.
\<close>

definition ieee_round :: "nat \<Rightarrow> int \<Rightarrow> real \<Rightarrow> real" where
  "ieee_round p emin x =
     (if x = 0 then 0
      else
        let e = max emin \<lfloor>log 2 \<bar>x\<bar>\<rfloor>;
            q = 2 powr of_int (e - int p + 1)
        in of_int (rne (x / q)) * q)"

definition binary32 :: "real \<Rightarrow> real" where
  "binary32 = ieee_round 24 (- 126)"

definition binary64 :: "real \<Rightarrow> real" where
  "binary64 = ieee_round 53 (- 1022)"

text \<open>The roundings of a machine with IEEE 754 \<open>float\<close> and \<open>double\<close>.\<close>

definition ieee :: float_ops where
  "ieee = \<lparr>to_float = binary32, to_double = binary64\<rparr>"

text \<open>
  The finite single-precision values: \<open>m * 2 ^ e\<close> for an integer \<open>m\<close> of at most
  24 bits and \<open>- 149 \<le> e \<le> 104\<close>.
\<close>

definition representable32 :: "real \<Rightarrow> bool" where
  "representable32 x \<longleftrightarrow>
     (\<exists>(m :: int) (e :: int). \<bar>m\<bar> < 2 ^ 24 \<and> - 149 \<le> e \<and> e \<le> 104 \<and> x = of_int m * 2 powr of_int e)"

text \<open>The least positive single-precision value (\<open>FLT_TRUE_MIN\<close> of float.h).\<close>

definition FLT_TRUE_MIN :: real where
  "FLT_TRUE_MIN = 1 / 2 ^ 149"

text \<open>The greatest finite single-precision value (\<open>FLT_MAX\<close> of float.h).\<close>

definition FLT_MAX :: real where
  "FLT_MAX = (2 ^ 24 - 1) * 2 ^ 104"

subsection \<open>The device\<close>

text \<open>
  OpenAL is outside the repository.  The device is modelled by what the file can observe
  and cause: the playback state of every source name, the list of state-changing calls
  issued so far (oldest first), and the next buffer name \<open>alGenBuffers\<close> hands out.
  \<open>alSourcePlay\<close>, \<open>alSourceStop\<close> and \<open>alSourcePause\<close> move the playback state as the
  OpenAL specification says; a source that plays to its end becomes \<open>AL_STOPPED\<close> on its
  own, so theorems take the playback states as they are found.  No call fails in the
  model, so \<open>al_checkErr\<close> finds \<open>AL_NO_ERROR\<close> and logs nothing.
\<close>

datatype al_call =
  AlSourcei ALuint al_param "32 word"
| AlSourcef ALuint al_param ALfloat
| AlSourcefv ALuint al_param "ALfloat list"
| AlSourcePlay ALuint
| AlSourceStop ALuint
| AlSourcePause ALuint
| AlGenBuffers ALuint
| AlBufferData ALuint al_format "byte list" "32 word" "32 word"

record al_device =
  src_state :: "ALuint \<Rightarrow> al_source_state"
  calls :: "al_call list"
  next_buffer :: ALuint

definition alGetSourcei_state :: "ALuint \<Rightarrow> al_device \<Rightarrow> al_source_state" where
  "alGetSourcei_state s dev = src_state dev s"

definition alSourcei :: "ALuint \<Rightarrow> al_param \<Rightarrow> 32 word \<Rightarrow> al_device \<Rightarrow> al_device" where
  "alSourcei s p v dev = dev\<lparr>calls := calls dev @ [AlSourcei s p v]\<rparr>"

definition alSourcef :: "ALuint \<Rightarrow> al_param \<Rightarrow> ALfloat \<Rightarrow> al_device \<Rightarrow> al_device" where
  "alSourcef s p v dev = dev\<lparr>calls := calls dev @ [AlSourcef s p v]\<rparr>"

definition alSourcefv :: "ALuint \<Rightarrow> al_param \<Rightarrow> ALfloat list \<Rightarrow> al_device \<Rightarrow> al_device" where
  "alSourcefv s p v dev = dev\<lparr>calls := calls dev @ [AlSourcefv s p v]\<rparr>"

definition alSourcePlay :: "ALuint \<Rightarrow> al_device \<Rightarrow> al_device" where
  "alSourcePlay s dev =
     dev\<lparr>src_state := (src_state dev)(s := AL_PLAYING), calls := calls dev @ [AlSourcePlay s]\<rparr>"

definition alSourceStop :: "ALuint \<Rightarrow> al_device \<Rightarrow> al_device" where
  "alSourceStop s dev =
     dev\<lparr>src_state := (src_state dev)
            (s := if src_state dev s = AL_INITIAL then AL_INITIAL else AL_STOPPED),
         calls := calls dev @ [AlSourceStop s]\<rparr>"

definition alSourcePause :: "ALuint \<Rightarrow> al_device \<Rightarrow> al_device" where
  "alSourcePause s dev =
     dev\<lparr>src_state := (src_state dev)
            (s := if src_state dev s = AL_PLAYING then AL_PAUSED else src_state dev s),
         calls := calls dev @ [AlSourcePause s]\<rparr>"

subsection \<open>Global state, voices and sounds\<close>

text \<open>
  \<open>alGroup_t\<close> as declared in the file.  \<open>sources\<close> is the malloc'ed array and
  \<open>nsources\<close> the count stored beside it; \<open>fade_timer\<close> holds the 32 bits of the
  \<open>SDL_GetTicks\<close> value assigned to it.
\<close>

record alGroup =
  g_id :: int
  sources :: "ALuint list"
  nsources :: int
  g_state :: voice_state_t
  fade_timer :: "32 word"

text \<open>The two \<open>WARN\<close> messages of the group functions, with the group id they print.\<close>

datatype warning = Group_has_no_free_sounds int | Group_not_found int

text \<open>
  The file's static variables.  \<open>source_stack\<close> and \<open>source_total\<close> are the arrays,
  \<open>source_nstack\<close> and \<open>source_ntotal\<close> the counts of their live prefixes.
  \<open>al_groups\<close> holds the first \<open>al_ngroups\<close> entries of the group array, so
  \<open>al_ngroups\<close> is its length.  \<open>al\<close> is the device and \<open>warnings\<close> the messages
  passed to \<open>WARN\<close>, oldest first.  An access outside an array is undefined behaviour
  in C; the theorems that depend on an access assume it in range.
\<close>

record sound_state =
  source_stack :: "ALuint list"
  source_total :: "ALuint list"
  source_nstack :: int
  source_ntotal :: int
  svolume :: ALfloat
  al_groups :: "alGroup list"
  al_groupidgen :: int
  al :: al_device
  warnings :: "warning list"

text \<open>The OpenAL part of \<open>alVoice\<close> and \<open>alSound\<close> (sound.h), by the fields the file uses.\<close>

record alVoice =
  v_state :: voice_state_t
  v_source :: ALuint
  v_buffer :: ALuint
  v_pos :: "ALfloat list"
  v_vel :: "ALfloat list"

record alSound =
  snd_buf :: ALuint

subsection \<open>The source pool and playing a voice\<close>

definition sound_al_getSource :: "sound_state \<Rightarrow> ALuint \<times> sound_state" where
  "sound_al_getSource st =
     (if source_nstack st \<le> 0 then (0, st)
      else
        let st1 = st\<lparr>source_nstack := source_nstack st - 1\<rparr>;
            source = source_stack st1 ! nat (source_nstack st1)
        in (source, st1))"

definition al_playVoice ::
  "alVoice \<Rightarrow> alSound \<Rightarrow> ALfloat \<Rightarrow> ALfloat \<Rightarrow> ALfloat \<Rightarrow> ALfloat \<Rightarrow> 32 word \<Rightarrow> sound_state
     \<Rightarrow> int \<times> alVoice \<times> sound_state" where
  "al_playVoice v s px py vx vy relative st =
     (case sound_al_getSource st of (source, st1) \<Rightarrow>
        let v1 = v\<lparr>v_source := source\<rparr> in
        if v_source v1 = 0 then (- 1, v1, st1)
        else
          let v2 = v1\<lparr>v_buffer := snd_buf s\<rparr>;
              d1 = alSourcei (v_source v2) AL_BUFFER (v_buffer v2) (al st1);
              d2 = alSourcei (v_source v2) AL_SOURCE_RELATIVE relative d1;
              v3 = v2\<lparr>v_pos := [px, py, 0], v_vel := [vx, vy, 0]\<rparr>;
              d3 = alSourcef (v_source v3) AL_GAIN (svolume st1) d2;
              d4 = alSourcefv (v_source v3) AL_POSITION (v_pos v3) d3;
              d5 = alSourcefv (v_source v3) AL_VELOCITY (v_vel v3) d4;
              d6 = alSourcePlay (v_source v3) d5
          in (0, v3, st1\<lparr>al := d6\<rparr>))"

definition sound_al_play :: "alVoice \<Rightarrow> alSound \<Rightarrow> sound_state \<Rightarrow> int \<times> alVoice \<times> sound_state" where
  "sound_al_play v s st = al_playVoice v s 0 0 0 0 AL_TRUE st"

definition sound_al_playPos ::
  "alVoice \<Rightarrow> alSound \<Rightarrow> real \<Rightarrow> real \<Rightarrow> real \<Rightarrow> real \<Rightarrow> sound_state
     \<Rightarrow> int \<times> alVoice \<times> sound_state" where
  "sound_al_playPos v s px py vx vy st = al_playVoice v s px py vx vy AL_FALSE st"

subsection \<open>The per-frame sweep of a voice, and stopping it\<close>

definition sound_al_updateVoice :: "alVoice \<Rightarrow> sound_state \<Rightarrow> alVoice \<times> sound_state" where
  "sound_al_updateVoice v st =
     (if v_source v = 0 then (v\<lparr>v_state := VOICE_DESTROY\<rparr>, st)
      else
        let state = alGetSourcei_state (v_source v) (al st) in
        if state = AL_STOPPED then
          let d1 = alSourcei (v_source v) AL_BUFFER AL_NONE (al st);
              st1 = st\<lparr>al := d1\<rparr>;
              st2 = st1\<lparr>source_stack :=
                         (source_stack st1)[nat (source_nstack st1) := v_source v]\<rparr>;
              st3 = st2\<lparr>source_nstack := source_nstack st2 + 1\<rparr>;
              v1 = v\<lparr>v_source := 0\<rparr>
          in (v1\<lparr>v_state := VOICE_STOPPED\<rparr>, st3)
        else
          let d1 = alSourcef (v_source v) AL_GAIN (svolume st) (al st);
              d2 = alSourcefv (v_source v) AL_POSITION (v_pos v) d1;
              d3 = alSourcefv (v_source v) AL_VELOCITY (v_vel v) d2
          in (v, st\<lparr>al := d3\<rparr>))"

definition sound_al_stop :: "alVoice \<Rightarrow> sound_state \<Rightarrow> sound_state" where
  "sound_al_stop voice st =
     (if v_source voice \<noteq> 0 then st\<lparr>al := alSourceStop (v_source voice) (al st)\<rparr> else st)"

subsection \<open>Pausing and resuming\<close>

function al_pausev_loop :: "nat \<Rightarrow> int \<Rightarrow> ALuint list \<Rightarrow> al_device \<Rightarrow> al_device" where
  "al_pausev_loop i n s dev =
     (if int i < n then
        let state = alGetSourcei_state (s ! i) dev
        in al_pausev_loop (Suc i) n s
             (if state = AL_PLAYING then alSourcePause (s ! i) dev else dev)
      else dev)"
  by pat_completeness auto
termination
  by (relation "measure (\<lambda>(i, n, s, dev). nat (n - int i))") auto

declare al_pausev_loop.simps [simp del]

definition al_pausev :: "int \<Rightarrow> ALuint list \<Rightarrow> al_device \<Rightarrow> al_device" where
  "al_pausev n s dev = al_pausev_loop 0 n s dev"

function al_resumev_loop :: "nat \<Rightarrow> int \<Rightarrow> ALuint list \<Rightarrow> al_device \<Rightarrow> al_device" where
  "al_resumev_loop i n s dev =
     (if int i < n then
        let state = alGetSourcei_state (s ! i) dev
        in al_resumev_loop (Suc i) n s
             (if state = AL_PAUSED then alSourcePlay (s ! i) dev else dev)
      else dev)"
  by pat_completeness auto
termination
  by (relation "measure (\<lambda>(i, n, s, dev). nat (n - int i))") auto

declare al_resumev_loop.simps [simp del]

definition al_resumev :: "int \<Rightarrow> ALuint list \<Rightarrow> al_device \<Rightarrow> al_device" where
  "al_resumev n s dev = al_resumev_loop 0 n s dev"

definition sound_al_pause :: "sound_state \<Rightarrow> sound_state" where
  "sound_al_pause st = st\<lparr>al := al_pausev (source_ntotal st) (source_total st) (al st)\<rparr>"

definition sound_al_resume :: "sound_state \<Rightarrow> sound_state" where
  "sound_al_resume st = st\<lparr>al := al_resumev (source_ntotal st) (source_total st) (al st)\<rparr>"

subsection \<open>Groups\<close>

text \<open>
  \<open>memmove(&a[j], &a[j+1], sizeof(ALuint) * n)\<close>: the \<open>n\<close> entries from \<open>j + 1\<close> on
  are copied one place down; the rest of the array stays.
\<close>

definition memmove_down :: "ALuint list \<Rightarrow> nat \<Rightarrow> nat \<Rightarrow> ALuint list" where
  "memmove_down a j n = take j a @ take n (drop (Suc j) a) @ drop (j + n) a"

text \<open>The inner loop of \<open>sound_al_createGroup\<close>: remove a source from \<open>source_total\<close>.\<close>

function createGroup_total :: "nat \<Rightarrow> ALuint \<Rightarrow> sound_state \<Rightarrow> sound_state" where
  "createGroup_total j src st =
     (if int j < source_ntotal st then
        if src = source_total st ! j then
          let st1 = st\<lparr>source_ntotal := source_ntotal st - 1\<rparr>
          in st1\<lparr>source_total :=
                   memmove_down (source_total st1) j (nat (source_ntotal st1 - int j))\<rparr>
        else createGroup_total (Suc j) src st
      else st)"
  by pat_completeness auto
termination
  by (relation "measure (\<lambda>(j, src, st). nat (source_ntotal st - int j))") auto

declare createGroup_total.simps [simp del]

text \<open>
  The outer loop, \<open>gsize\<close> being the parameter \<open>size\<close>: \<open>True\<close> when all
  sources were pulled, \<open>False\<close> on \<open>goto group_err\<close>.
\<close>

function createGroup_sources ::
  "nat \<Rightarrow> int \<Rightarrow> alGroup \<Rightarrow> sound_state \<Rightarrow> bool \<times> alGroup \<times> sound_state" where
  "createGroup_sources i gsize g st =
     (if int i < gsize then
        if source_nstack st \<le> 0 then (False, g, st)
        else
          let st1 = st\<lparr>source_nstack := source_nstack st - 1\<rparr>;
              g1 = g\<lparr>sources := (sources g)[i := source_stack st1 ! nat (source_nstack st1)]\<rparr>
          in createGroup_sources (Suc i) gsize g1 (createGroup_total 0 (sources g1 ! i) st1)
      else (True, g, st))"
  by pat_completeness auto
termination
  by (relation "measure (\<lambda>(i, gsize, g, st). nat (gsize - int i))") auto

declare createGroup_sources.simps [simp del]

text \<open>
  \<open>sound_al_createGroup\<close>.  The new entry is the last of the group array; its
  \<open>sources\<close> array and \<open>fade_timer\<close> are uninitialised memory, modelled as zeros.
  On \<open>group_err\<close> the entry is dropped again (\<open>al_ngroups--\<close>).
\<close>

definition sound_al_createGroup :: "int \<Rightarrow> sound_state \<Rightarrow> int \<times> sound_state" where
  "sound_al_createGroup gsize st =
     (let ident = al_groupidgen st + 1;
          st1 = st\<lparr>al_groupidgen := ident\<rparr>;
          g = \<lparr>g_id = ident, sources = replicate (nat gsize) 0, nsources = gsize,
               g_state = VOICE_PLAYING, fade_timer = 0\<rparr>
      in case createGroup_sources 0 gsize g st1 of
           (True, g1, st2) \<Rightarrow> (ident, st2\<lparr>al_groups := al_groups st2 @ [g1]\<rparr>)
         | (False, g1, st2) \<Rightarrow> (0, st2))"

text \<open>Binding and starting the chosen member in \<open>sound_al_playGroup\<close>.\<close>

definition playGroup_start :: "ALuint \<Rightarrow> alSound \<Rightarrow> int \<Rightarrow> al_device \<Rightarrow> al_device" where
  "playGroup_start src s once dev =
     (let d1 = alSourcei src AL_BUFFER (snd_buf s) dev;
          d2 = alSourcei src AL_SOURCE_RELATIVE AL_TRUE d1;
          d3 = alSourcei src AL_LOOPING (if once \<noteq> 0 then AL_FALSE else AL_TRUE) d2
      in alSourcePlay src d3)"

text \<open>The loop over the members: \<open>True\<close> when it returned 0 from inside the loop.\<close>

function playGroup_sources ::
  "nat \<Rightarrow> alGroup \<Rightarrow> alSound \<Rightarrow> int \<Rightarrow> ALfloat \<Rightarrow> al_device \<Rightarrow> bool \<times> al_device" where
  "playGroup_sources j g s once vol dev =
     (if int j < nsources g then
        let state = alGetSourcei_state (sources g ! j) dev in
        if int j = nsources g - 1 then
          (True, playGroup_start (sources g ! j) s once
             (if state \<noteq> AL_STOPPED
              then alSourcef (sources g ! j) AL_GAIN vol (alSourceStop (sources g ! j) dev)
              else dev))
        else if state = AL_PLAYING \<or> state = AL_PAUSED then
          playGroup_sources (Suc j) g s once vol dev
        else (True, playGroup_start (sources g ! j) s once dev)
      else (False, dev))"
  by pat_completeness auto
termination
  by (relation "measure (\<lambda>(j, g, s, once, vol, dev). nat (nsources g - int j))") auto

declare playGroup_sources.simps [simp del]

function playGroup_groups ::
  "nat \<Rightarrow> int \<Rightarrow> alSound \<Rightarrow> int \<Rightarrow> sound_state \<Rightarrow> int \<times> sound_state" where
  "playGroup_groups i grp s once st =
     (if i < length (al_groups st) then
        if g_id (al_groups st ! i) = grp then
          let g = (al_groups st ! i)\<lparr>g_state := VOICE_PLAYING\<rparr>;
              st1 = st\<lparr>al_groups := (al_groups st)[i := g]\<rparr>
          in case playGroup_sources 0 g s once (svolume st1) (al st1) of
               (True, dev) \<Rightarrow> (0, st1\<lparr>al := dev\<rparr>)
             | (False, dev) \<Rightarrow>
                 (- 1, st1\<lparr>al := dev,
                          warnings := warnings st1 @ [Group_has_no_free_sounds grp]\<rparr>)
        else playGroup_groups (Suc i) grp s once st
      else (- 1, st\<lparr>warnings := warnings st @ [Group_not_found grp]\<rparr>))"
  by pat_completeness auto
termination
  by (relation "measure (\<lambda>(i, grp, s, once, st). length (al_groups st) - i)") auto

declare playGroup_groups.simps [simp del]

definition sound_al_playGroup :: "int \<Rightarrow> alSound \<Rightarrow> int \<Rightarrow> sound_state \<Rightarrow> int \<times> sound_state" where
  "sound_al_playGroup grp s once st = playGroup_groups 0 grp s once st"

text \<open>
  The loop of \<open>sound_al_stopGroup\<close>.  Its body ends in a \<open>break\<close> that stands after
  the \<open>if\<close>, not inside it, so the loop is left after the entry at \<open>i\<close> whether or not
  the id matched: there is no recursive call.  The result is the value of \<open>i\<close> after
  the loop and the state.
\<close>

definition stopGroup_loop :: "nat \<Rightarrow> int \<Rightarrow> 32 word \<Rightarrow> sound_state \<Rightarrow> nat \<times> sound_state" where
  "stopGroup_loop i grp ticks st =
     (if i < length (al_groups st) then
        (i, if g_id (al_groups st ! i) = grp
            then st\<lparr>al_groups := (al_groups st)
                      [i := (al_groups st ! i)\<lparr>g_state := VOICE_FADEOUT, fade_timer := ticks\<rparr>]\<rparr>
            else st)
      else (i, st))"

text \<open>\<open>ticks\<close> is what \<open>SDL_GetTicks\<close> returns at the call.\<close>

definition sound_al_stopGroup :: "int \<Rightarrow> 32 word \<Rightarrow> sound_state \<Rightarrow> sound_state" where
  "sound_al_stopGroup grp ticks st =
     (case stopGroup_loop 0 grp ticks st of (i, st1) \<Rightarrow>
        if i \<ge> length (al_groups st1)
        then st1\<lparr>warnings := warnings st1 @ [Group_not_found grp]\<rparr>
        else st1)"

function pauseGroup_loop :: "nat \<Rightarrow> int \<Rightarrow> sound_state \<Rightarrow> sound_state" where
  "pauseGroup_loop i grp st =
     (if i < length (al_groups st) then
        if g_id (al_groups st ! i) = grp then
          st\<lparr>al := al_pausev (nsources (al_groups st ! i)) (sources (al_groups st ! i)) (al st)\<rparr>
        else pauseGroup_loop (Suc i) grp st
      else st\<lparr>warnings := warnings st @ [Group_not_found grp]\<rparr>)"
  by pat_completeness auto
termination
  by (relation "measure (\<lambda>(i, grp, st). length (al_groups st) - i)") auto

declare pauseGroup_loop.simps [simp del]

definition sound_al_pauseGroup :: "int \<Rightarrow> sound_state \<Rightarrow> sound_state" where
  "sound_al_pauseGroup grp st = pauseGroup_loop 0 grp st"

function resumeGroup_loop :: "nat \<Rightarrow> int \<Rightarrow> sound_state \<Rightarrow> sound_state" where
  "resumeGroup_loop i grp st =
     (if i < length (al_groups st) then
        if g_id (al_groups st ! i) = grp then
          st\<lparr>al := al_resumev (nsources (al_groups st ! i)) (sources (al_groups st ! i)) (al st)\<rparr>
        else resumeGroup_loop (Suc i) grp st
      else st\<lparr>warnings := warnings st @ [Group_not_found grp]\<rparr>)"
  by pat_completeness auto
termination
  by (relation "measure (\<lambda>(i, grp, st). length (al_groups st) - i)") auto

declare resumeGroup_loop.simps [simp del]

definition sound_al_resumeGroup :: "int \<Rightarrow> sound_state \<Rightarrow> sound_state" where
  "sound_al_resumeGroup grp st = resumeGroup_loop 0 grp st"

subsection \<open>The per-frame update of the groups\<close>





text \<open>
  \<open>d = 1. - (ALfloat) f / (ALfloat) SOUND_FADEOUT\<close> for the unsigned elapsed time
  \<open>f\<close>: both operands of the division are converted to \<open>ALfloat\<close> and the quotient is
  an \<open>ALfloat\<close>, the subtraction from the \<open>double\<close> constant is done in \<open>double\<close>, and
  the assignment to \<open>d\<close> converts the difference to \<open>ALfloat\<close>.
\<close>

definition fade_d :: "float_ops \<Rightarrow> 32 word \<Rightarrow> ALfloat" where
  "fade_d fp f =
     to_float fp (to_double fp
       (1 - to_float fp (to_float fp (real (unat f)) / to_float fp (real (unat SOUND_FADEOUT)))))"





subsection \<open>The global volume\<close>

text \<open>
  \<open>sound_al_volume\<close> converts its \<open>double\<close> argument to \<open>ALfloat\<close>, stores it and
  returns 0; \<open>sound_al_getVolume\<close> returns the stored \<open>ALfloat\<close> as a \<open>double\<close>.
\<close>

definition sound_al_volume :: "float_ops \<Rightarrow> real \<Rightarrow> sound_state \<Rightarrow> int \<times> sound_state" where
  "sound_al_volume fp vol st = (0, st\<lparr>svolume := to_float fp vol\<rparr>)"

definition sound_al_getVolume :: "sound_state \<Rightarrow> real" where
  "sound_al_getVolume st = svolume st"

subsection \<open>Byte streams\<close>

text \<open>
  \<open>SDL_RWops\<close> belongs to SDL.  A stream is modelled as SDL's memory stream: the
  bytes and the read position.  \<open>SDL_RWread(rw, ptr, size, maxnum)\<close> copies as many of
  the \<open>size * maxnum\<close> bytes as are left, advances by that many and returns the number
  of whole objects read, 0 at the end of the stream.  \<open>SDL_RWseek(rw, offset, SEEK_CUR)\<close>
  moves the position by the signed \<open>offset\<close> and clamps it to the stream.
\<close>

record SDL_RWops =
  rw_data :: "byte list"
  rw_pos :: nat

definition SDL_RWread :: "SDL_RWops \<Rightarrow> nat \<Rightarrow> nat \<Rightarrow> byte list \<times> int \<times> SDL_RWops" where
  "SDL_RWread rw sz maxnum =
     (if sz = 0 \<or> maxnum = 0 then ([], 0, rw)
      else
        let total = min (sz * maxnum) (length (rw_data rw) - rw_pos rw)
        in (take total (drop (rw_pos rw) (rw_data rw)), int (total div sz),
            rw\<lparr>rw_pos := rw_pos rw + total\<rparr>))"

definition SDL_RWseek_cur :: "SDL_RWops \<Rightarrow> int \<Rightarrow> SDL_RWops" where
  "SDL_RWseek_cur rw offset =
     rw\<lparr>rw_pos := nat (max 0 (min (int (length (rw_data rw))) (int (rw_pos rw) + offset)))\<rparr>"

text \<open>
  \<open>memcmp\<close> on the first \<open>n\<close> bytes: the sign of the first difference.  Only
  whether it is 0 matters to the file.
\<close>

fun memcmp_bytes :: "byte list \<Rightarrow> byte list \<Rightarrow> int" where
  "memcmp_bytes (a # as) (b # bs) =
     (if a = b then memcmp_bytes as bs else if a < b then - 1 else 1)"
| "memcmp_bytes as bs = 0"

definition memcmp :: "byte list \<Rightarrow> byte list \<Rightarrow> nat \<Rightarrow> int" where
  "memcmp a b n = memcmp_bytes (take n a) (take n b)"

text \<open>\<open>SDL_SwapLE16\<close> and \<open>SDL_SwapLE32\<close> of the bytes read: the little-endian value.\<close>

definition le16 :: "byte list \<Rightarrow> 16 word" where
  "le16 bs = ucast (bs ! 0) + push_bit 8 (ucast (bs ! 1))"

definition le32 :: "byte list \<Rightarrow> 32 word" where
  "le32 bs = ucast (bs ! 0) + push_bit 8 (ucast (bs ! 1)) + push_bit 16 (ucast (bs ! 2))
               + push_bit 24 (ucast (bs ! 3))"

definition tag :: "string \<Rightarrow> byte list" where
  "tag s = map of_char s"

subsection \<open>Loading a WAV\<close>

definition sound_al_wavReadCmp :: "SDL_RWops \<Rightarrow> byte list \<Rightarrow> nat \<Rightarrow> int \<times> SDL_RWops" where
  "sound_al_wavReadCmp rw cmp bytes =
     (case SDL_RWread rw bytes 1 of (buf, len, rw1) \<Rightarrow>
        if len \<noteq> 1 then (- 1, rw1) else (memcmp buf cmp bytes, rw1))"

definition sound_al_wavGetLen32 :: "SDL_RWops \<Rightarrow> int \<times> 32 word \<times> SDL_RWops" where
  "sound_al_wavGetLen32 rw =
     (case SDL_RWread rw 4 1 of (buf, len, rw1) \<Rightarrow>
        if len \<noteq> 1 then (- 1, 0, rw1) else (0, le32 buf, rw1))"

definition sound_al_wavGetLen16 :: "SDL_RWops \<Rightarrow> int \<times> 16 word \<times> SDL_RWops" where
  "sound_al_wavGetLen16 rw =
     (case SDL_RWread rw 2 1 of (buf, len, rw1) \<Rightarrow>
        if len \<noteq> 1 then (- 1, 0, rw1) else (0, le16 buf, rw1))"

text \<open>
  How a load ends short of success: the message of the \<open>WARN\<close> before \<open>goto wav_err\<close>,
  \<open>goto chunk_err\<close> or \<open>return -1\<close> (without the value it prints), or the integer
  division by a zero channel count.
\<close>

datatype load_error = Warn string | Division_by_zero

text \<open>
  The loop that loads the chunk data:
  \<open>while (i < chunklen) i += SDL_RWread(rw, &buf[i], 1, chunklen-i);\<close>.
  \<open>buf\<close> is what has been read so far.  \<open>None\<close> is the loop that does not end.
\<close>

partial_function (option) wav_drain ::
  "SDL_RWops \<Rightarrow> byte list \<Rightarrow> 32 word \<Rightarrow> 32 word \<Rightarrow> (SDL_RWops \<times> byte list) option" where
  [code]: "wav_drain rw buf i chunklen =
     (if i < chunklen then
        (case SDL_RWread rw 1 (unat (chunklen - i)) of (bytes, n, rw1) \<Rightarrow>
           wav_drain rw1 (buf @ bytes) (i + word_of_int n) chunklen)
      else Some (rw, buf))"

text \<open>
  The "Skip fact" block of \<open>sound_al_loadWav\<close>: the tag just read and the stream in,
  the tag to test against \<open>data\<close> and the stream out.
\<close>

definition loadWav_skip_fact ::
  "byte list \<Rightarrow> SDL_RWops \<Rightarrow> load_error + (byte list \<times> SDL_RWops)" where
  "loadWav_skip_fact magic rw =
     (if memcmp magic (tag ''fact'') 4 = 0 then
        case sound_al_wavGetLen32 rw of (r, chunklen, rw) \<Rightarrow>
        if r \<noteq> 0 then Inl (Warn ''Unable to get WAVE chunk data length.'') else
        let rw = SDL_RWseek_cur rw (sint chunklen) in
        case SDL_RWread rw 4 1 of (magic, len, rw) \<Rightarrow>
        if len \<noteq> 1 then Inl (Warn ''Unable to read chunk header.'') else Inr (magic, rw)
      else Inr (magic, rw))"

text \<open>What \<open>sound_al_loadWav\<close> has read when it reaches the chunk data.\<close>

record wav_header =
  wh_channels :: "16 word"
  wh_rate :: "32 word"
  wh_align :: "16 word"
  wh_chunklen :: "32 word"

text \<open>
  \<open>sound_al_loadWav\<close> from its start to the length of the data chunk.  The field read
  under "Get significant bits" is divided by the channel count before it is compared
  with 8 and 16.
\<close>

definition loadWav_header :: "SDL_RWops \<Rightarrow> load_error + (wav_header \<times> SDL_RWops)" where
  "loadWav_header rw =
     (case sound_al_wavReadCmp rw (tag ''RIFF'') 4 of (r, rw) \<Rightarrow>
      if r \<noteq> 0 then Inl (Warn ''RIFF header not found.'') else
      case sound_al_wavGetLen32 rw of (r, filelen, rw) \<Rightarrow>
      if r \<noteq> 0 then Inl (Warn ''Unable to get WAVE length.'') else
      case sound_al_wavReadCmp rw (tag ''WAVE'') 4 of (r, rw) \<Rightarrow>
      if r \<noteq> 0 then Inl (Warn ''WAVE header not found.'') else
      case sound_al_wavReadCmp rw (tag ''fmt '') 4 of (r, rw) \<Rightarrow>
      if r \<noteq> 0 then Inl (Warn ''Chunk header fmt  header not found.'') else
      case sound_al_wavGetLen32 rw of (r, chunklen, rw) \<Rightarrow>
      if r \<noteq> 0 then Inl (Warn ''Unable to get WAVE chunk length.'') else
      let i = (0 :: 32 word) in
      case sound_al_wavGetLen16 rw of (r, compressed, rw) \<Rightarrow>
      if r \<noteq> 0 then Inl (Warn ''Unable to get WAVE chunk compression type.'') else
      if compressed \<noteq> 1 then Inl (Warn ''Unsupported WAVE chunk compression.'') else
      let i = i + 2 in
      case sound_al_wavGetLen16 rw of (r, channels, rw) \<Rightarrow>
      if r \<noteq> 0 then Inl (Warn ''Unable to get WAVE chunk channels.'') else
      let i = i + 2 in
      case sound_al_wavGetLen32 rw of (r, rate, rw) \<Rightarrow>
      if r \<noteq> 0 then Inl (Warn ''Unable to get WAVE chunk sample rate.'') else
      let i = i + 4 in
      case sound_al_wavGetLen32 rw of (r, unused32, rw) \<Rightarrow>
      if r \<noteq> 0 then Inl (Warn ''Unable to get WAVE chunk average byte rate.'') else
      let i = i + 4 in
      case sound_al_wavGetLen16 rw of (r, unused16, rw) \<Rightarrow>
      if r \<noteq> 0 then Inl (Warn ''Unable to get WAVE chunk block align.'') else
      let i = i + 2 in
      case sound_al_wavGetLen16 rw of (r, align, rw) \<Rightarrow>
      if r \<noteq> 0 then Inl (Warn ''Unable to get WAVE chunk significant bits.'') else
      if channels = 0 then Inl Division_by_zero else
      let align = align div channels;
          i = i + 2;
          rw = SDL_RWseek_cur rw (sint (chunklen - i))
      in
      case SDL_RWread rw 4 1 of (magic, len, rw) \<Rightarrow>
      if len \<noteq> 1 then Inl (Warn ''Unable to read chunk header.'') else
      (case loadWav_skip_fact magic rw of
         Inl e \<Rightarrow> Inl e
       | Inr (magic, rw) \<Rightarrow>
           if memcmp magic (tag ''data'') 4 \<noteq> 0
           then Inl (Warn ''Unable to find WAVE data chunk header.'') else
           (case sound_al_wavGetLen32 rw of (r, chunklen, rw) \<Rightarrow>
              if r \<noteq> 0 then Inl (Warn ''Unable to get WAVE chunk data length.'') else
              Inr (\<lparr>wh_channels = channels, wh_rate = rate, wh_align = align,
                    wh_chunklen = chunklen\<rparr>, rw))))"

text \<open>"Calculate format".\<close>

definition loadWav_format :: "16 word \<Rightarrow> 16 word \<Rightarrow> load_error + al_format" where
  "loadWav_format channels align =
     (if channels = 2 then
        if align = 16 then Inr AL_FORMAT_STEREO16
        else if align = 8 then Inr AL_FORMAT_STEREO8
        else Inl (Warn ''Unsupported byte alignment in WAVE file.'')
      else if channels = 1 then
        if align = 16 then Inr AL_FORMAT_MONO16
        else if align = 8 then Inr AL_FORMAT_MONO8
        else Inl (Warn ''Unsupported byte alignment in WAVE file.'')
      else Inl (Warn ''Unsupported number of channels in WAVE file.''))"

definition alGenBuffers :: "al_device \<Rightarrow> ALuint \<times> al_device" where
  "alGenBuffers dev =
     (next_buffer dev,
      dev\<lparr>calls := calls dev @ [AlGenBuffers (next_buffer dev)],
          next_buffer := next_buffer dev + 1\<rparr>)"

definition alBufferData ::
  "ALuint \<Rightarrow> al_format \<Rightarrow> byte list \<Rightarrow> 32 word \<Rightarrow> 32 word \<Rightarrow> al_device \<Rightarrow> al_device" where
  "alBufferData b fmt bytes len freq dev =
     dev\<lparr>calls := calls dev @ [AlBufferData b fmt bytes len freq]\<rparr>"

text \<open>
  \<open>sound_al_loadWav\<close>: \<open>None\<close> when the call does not return, \<open>Some (Inl e)\<close> for
  \<open>return -1\<close>, \<open>Some (Inr (sound, dev))\<close> for \<open>return 0\<close> with the sound and the device
  as the call leaves them.
\<close>

definition sound_al_loadWav ::
  "alSound \<Rightarrow> SDL_RWops \<Rightarrow> al_device \<Rightarrow> (load_error + alSound \<times> al_device) option" where
  "sound_al_loadWav sound rw dev =
     (case loadWav_header rw of
        Inl e \<Rightarrow> Some (Inl e)
      | Inr (h, rw1) \<Rightarrow>
          (case wav_drain rw1 [] 0 (wh_chunklen h) of
             None \<Rightarrow> None
           | Some (rw2, buf) \<Rightarrow>
               (case loadWav_format (wh_channels h) (wh_align h) of
                  Inl e \<Rightarrow> Some (Inl e)
                | Inr fmt \<Rightarrow>
                    (case alGenBuffers dev of (b, d1) \<Rightarrow>
                       Some (Inr (sound\<lparr>snd_buf := b\<rparr>,
                                  alBufferData b fmt buf (wh_chunklen h) (wh_rate h) d1))))))"

subsection \<open>Loading an Ogg\<close>

text \<open>
  libvorbisfile is outside the repository.  An opened file is modelled by what
  \<open>ov_test_open\<close>, \<open>ov_info\<close> and \<open>ov_pcm_total\<close> report and by the decoded bytes
  \<open>ov_read\<close> can still deliver: it returns at most the bytes asked for, and 0 once
  nothing is left.
\<close>

record OggVorbis_File =
  ov_test_open_ok :: bool
  ov_channels :: int
  ov_rate :: int
  ov_pcm_total :: int
  ov_pcm :: "byte list"

definition ov_read :: "OggVorbis_File \<Rightarrow> int \<Rightarrow> byte list \<times> int \<times> OggVorbis_File" where
  "ov_read vf len =
     (let n = min (nat len) (length (ov_pcm vf))
      in (take n (ov_pcm vf), int n, vf\<lparr>ov_pcm := drop n (ov_pcm vf)\<rparr>))"

text \<open>
  The loop that fills the buffer:
  \<open>while (i < len) i += ov_read(vf, &buf[i], len-i, VORBIS_ENDIAN, 2, 1, &section);\<close>.
\<close>

partial_function (option) ogg_drain ::
  "OggVorbis_File \<Rightarrow> byte list \<Rightarrow> int \<Rightarrow> int \<Rightarrow> (OggVorbis_File \<times> byte list) option" where
  [code]: "ogg_drain vf buf i len =
     (if i < len then
        (case ov_read vf (len - i) of (bytes, n, vf1) \<Rightarrow> ogg_drain vf1 (buf @ bytes) (i + n) len)
      else Some (vf, buf))"

definition sound_al_loadOgg ::
  "alSound \<Rightarrow> OggVorbis_File \<Rightarrow> al_device \<Rightarrow> (load_error + alSound \<times> al_device) option" where
  "sound_al_loadOgg sound vf dev =
     (if \<not> ov_test_open_ok vf then Some (Inl (Warn ''Failed to finish loading OGG file.''))
      else
        let fmt = (if ov_channels vf = 1 then AL_FORMAT_MONO16 else AL_FORMAT_STEREO16);
            len = ov_pcm_total vf * ov_channels vf * 2
        in case ogg_drain vf [] 0 len of
             None \<Rightarrow> None
           | Some (vf1, buf) \<Rightarrow>
               (case alGenBuffers dev of (b, d1) \<Rightarrow>
                  Some (Inr (sound\<lparr>snd_buf := b\<rparr>,
                             alBufferData b fmt buf (word_of_int len) (word_of_int (ov_rate vf))
                               d1))))"

subsection \<open>What a buffer format stands for\<close>

text \<open>The channel count and the bits per sample of the four OpenAL formats.\<close>

fun al_format_channels :: "al_format \<Rightarrow> nat" where
  "al_format_channels AL_FORMAT_MONO8 = 1"
| "al_format_channels AL_FORMAT_MONO16 = 1"
| "al_format_channels AL_FORMAT_STEREO8 = 2"
| "al_format_channels AL_FORMAT_STEREO16 = 2"

fun al_format_bits :: "al_format \<Rightarrow> nat" where
  "al_format_bits AL_FORMAT_MONO8 = 8"
| "al_format_bits AL_FORMAT_MONO16 = 16"
| "al_format_bits AL_FORMAT_STEREO8 = 8"
| "al_format_bits AL_FORMAT_STEREO16 = 16"

subsection \<open>Example inputs\<close>

text \<open>Devices on which every source reports the same playback state.\<close>

definition dev_initial :: al_device where
  "dev_initial = \<lparr>src_state = (\<lambda>_. AL_INITIAL), calls = [], next_buffer = 1\<rparr>"

definition dev_playing :: al_device where
  "dev_playing = \<lparr>src_state = (\<lambda>_. AL_PLAYING), calls = [], next_buffer = 1\<rparr>"

definition dev_stopped :: al_device where
  "dev_stopped = \<lparr>src_state = (\<lambda>_. AL_STOPPED), calls = [], next_buffer = 1\<rparr>"

text \<open>A device on which source 1 is paused and every other source has stopped.\<close>

definition dev_mixed :: al_device where
  "dev_mixed = \<lparr>src_state = (\<lambda>s. if s = 1 then AL_PAUSED else AL_STOPPED), calls = [],
                 next_buffer = 1\<rparr>"

text \<open>A pool of two sources, both free, and no group.\<close>

definition st_two :: sound_state where
  "st_two = \<lparr>source_stack = [1, 2], source_total = [1, 2], source_nstack = 2,
       source_ntotal = 2, svolume = 1, al_groups = [], al_groupidgen = 0,
       al = dev_playing, warnings = []\<rparr>"

text \<open>The same pool after \<open>sound_al_createGroup(1)\<close> twice: groups 1 and 2.\<close>

definition st_groups :: sound_state where
  "st_groups = \<lparr>source_stack = [1, 2], source_total = [1, 2], source_nstack = 0,
       source_ntotal = 0, svolume = 1,
       al_groups = [\<lparr>g_id = 1, sources = [2], nsources = 1, g_state = VOICE_PLAYING,
                      fade_timer = 0\<rparr>,
                    \<lparr>g_id = 2, sources = [1], nsources = 1, g_state = VOICE_PLAYING,
                      fade_timer = 0\<rparr>],
       al_groupidgen = 2, al = dev_playing, warnings = []\<rparr>"

text \<open>The pool after \<open>sound_al_createGroup(2)\<close>: one group, both members playing.\<close>

definition st_busy :: sound_state where
  "st_busy = \<lparr>source_stack = [1, 2], source_total = [1, 2], source_nstack = 0,
       source_ntotal = 0, svolume = 1,
       al_groups = [\<lparr>g_id = 1, sources = [2, 1], nsources = 2, g_state = VOICE_PLAYING,
                      fade_timer = 0\<rparr>],
       al_groupidgen = 1, al = dev_playing, warnings = []\<rparr>"

text \<open>The pool after \<open>sound_al_createGroup(0)\<close>: one group without members.\<close>

definition st_empty_group :: sound_state where
  "st_empty_group = \<lparr>source_stack = [1, 2], source_total = [1, 2], source_nstack = 2,
       source_ntotal = 2, svolume = 1,
       al_groups = [\<lparr>g_id = 1, sources = [], nsources = 0, g_state = VOICE_PLAYING,
                      fade_timer = 0\<rparr>],
       al_groupidgen = 1, al = dev_playing, warnings = []\<rparr>"

text \<open>
  Group 1 fading out since tick 1000 at volume 1/2, group 2 not fading; and the same
  at volume 0, at the least positive single-precision volume, and at volume \<open>-1\<close>.
\<close>

definition st_fading :: sound_state where
  "st_fading = \<lparr>source_stack = [1, 2, 3], source_total = [1, 2, 3], source_nstack = 0,
       source_ntotal = 0, svolume = 1 / 2,
       al_groups = [\<lparr>g_id = 1, sources = [3, 2], nsources = 2, g_state = VOICE_FADEOUT,
                      fade_timer = 1000\<rparr>,
                    \<lparr>g_id = 2, sources = [1], nsources = 1, g_state = VOICE_PLAYING,
                      fade_timer = 0\<rparr>],
       al_groupidgen = 2, al = dev_playing, warnings = []\<rparr>"

definition st_mute :: sound_state where
  "st_mute = st_fading\<lparr>svolume := 0\<rparr>"

definition st_faint :: sound_state where
  "st_faint = st_fading\<lparr>svolume := FLT_TRUE_MIN\<rparr>"

definition st_inverted :: sound_state where
  "st_inverted = st_fading\<lparr>svolume := - 1\<rparr>"


text \<open>A voice on source 5, which came from a pool of two; a voice without a source.\<close>

definition voice5 :: alVoice where
  "voice5 = \<lparr>v_state = VOICE_PLAYING, v_source = 5, v_buffer = 9,
              v_pos = [3, 4, 0], v_vel = [1, 0, 0]\<rparr>"

definition voice0 :: alVoice where
  "voice0 = \<lparr>v_state = VOICE_STOPPED, v_source = 0, v_buffer = 9,
              v_pos = [3, 4, 0], v_vel = [1, 0, 0]\<rparr>"

definition st_sweep :: "al_device \<Rightarrow> sound_state" where
  "st_sweep dev = \<lparr>source_stack = [6, 5], source_total = [6, 5], source_nstack = 1,
       source_ntotal = 2, svolume = 1 / 2, al_groups = [], al_groupidgen = 0,
       al = dev, warnings = []\<rparr>"

definition sound5 :: alSound where
  "sound5 = \<lparr>snd_buf = 5\<rparr>"

text \<open>
  WAV files of 44100 Hz with a 16-byte format chunk and a data chunk that declares 4
  bytes: the channel count, byte rate, block align, bits per sample and the payload
  vary.
\<close>

definition wav_example ::
  "byte list \<Rightarrow> byte list \<Rightarrow> byte list \<Rightarrow> byte list \<Rightarrow> byte list \<Rightarrow> byte list" where
  "wav_example channels byte_rate block_align bits payload =
     tag ''RIFF'' @ [40, 0, 0, 0] @ tag ''WAVE'' @ tag ''fmt '' @ [16, 0, 0, 0] @ [1, 0]
       @ channels @ [0x44, 0xAC, 0, 0] @ byte_rate @ block_align @ bits
       @ tag ''data'' @ [4, 0, 0, 0] @ payload"

definition wav_mono16 :: SDL_RWops where
  "wav_mono16 = \<lparr>rw_data = wav_example [1, 0] [0x88, 0x58, 1, 0] [2, 0] [16, 0] [1, 2, 3, 4],
                 rw_pos = 0\<rparr>"

definition wav_stereo16 :: SDL_RWops where
  "wav_stereo16 = \<lparr>rw_data = wav_example [2, 0] [0x10, 0xB1, 2, 0] [4, 0] [16, 0] [1, 2, 3, 4],
                   rw_pos = 0\<rparr>"

definition wav_stereo8 :: SDL_RWops where
  "wav_stereo8 = \<lparr>rw_data = wav_example [2, 0] [0x88, 0x58, 1, 0] [2, 0] [8, 0] [1, 2, 3, 4],
                  rw_pos = 0\<rparr>"

text \<open>The mono file cut off after two of its four payload bytes.\<close>

definition wav_truncated :: SDL_RWops where
  "wav_truncated = \<lparr>rw_data = wav_example [1, 0] [0x88, 0x58, 1, 0] [2, 0] [16, 0] [1, 2],
                    rw_pos = 0\<rparr>"

text \<open>An Ogg that announces two mono samples (4 bytes) and decodes to 2 bytes.\<close>

definition ogg_truncated :: OggVorbis_File where
  "ogg_truncated = \<lparr>ov_test_open_ok = True, ov_channels = 1, ov_rate = 44100,
      ov_pcm_total = 2, ov_pcm = [1, 2]\<rparr>"

section \<open>Theorems\<close>

subsection \<open>Creating a group from a short pool\<close>

text \<open>
  With an empty pool the loop of \<open>sound_al_createGroup\<close> leaves at its first step:
  the call returns 0 and only the id generator has advanced.
\<close>

lemma createGroup_empty_pool:
  assumes "source_nstack st \<le> 0" "0 < n"
  shows "sound_al_createGroup n st = (0, st\<lparr>al_groupidgen := al_groupidgen st + 1\<rparr>)"
  using assms
  by (simp add: sound_al_createGroup_def Let_def createGroup_sources.simps [of 0])

text \<open>
  With a pool that holds some sources, but fewer than asked for, the call fails too,
  and the free count it leaves is 0: every source that was free has been pulled.
\<close>

lemma createGroup_total_nstack:
  "source_nstack (createGroup_total j src st) = source_nstack st"
proof (induction j src st rule: createGroup_total.induct)
  case (1 j src st)
  then show ?case
    by (subst createGroup_total.simps) (simp add: Let_def)
qed

lemma createGroup_sources_short:
  assumes "0 \<le> source_nstack st" "source_nstack st < gsize - int i"
  shows "\<not> fst (createGroup_sources i gsize g st)
         \<and> source_nstack (snd (snd (createGroup_sources i gsize g st))) = 0"
  using assms
proof (induction i gsize g st rule: createGroup_sources.induct)
  case (1 i gsize g st)
  from "1.prems" have lt: "int i < gsize" by simp
  show ?case
  proof (cases "source_nstack st \<le> 0")
    case True
    with "1.prems" lt show ?thesis
      by (subst (1 2) createGroup_sources.simps) simp
  next
    case False
    define st1 where "st1 = st\<lparr>source_nstack := source_nstack st - 1\<rparr>"
    define g1 where
      "g1 = g\<lparr>sources := (sources g)[i := source_stack st1 ! nat (source_nstack st1)]\<rparr>"
    define st2 where "st2 = createGroup_total 0 (sources g1 ! i) st1"
    have n2: "source_nstack st2 = source_nstack st - 1"
      by (simp add: st2_def st1_def createGroup_total_nstack)
    have step: "createGroup_sources i gsize g st = createGroup_sources (Suc i) gsize g1 st2"
      using lt False
      by (subst createGroup_sources.simps) (simp add: Let_def st1_def g1_def st2_def)
    have "\<not> fst (createGroup_sources (Suc i) gsize g1 st2)
         \<and> source_nstack (snd (snd (createGroup_sources (Suc i) gsize g1 st2))) = 0"
      unfolding st2_def g1_def st1_def
      using "1.prems" False n2 [unfolded st2_def g1_def st1_def]
      by (intro "1.IH" [OF lt False refl refl]) simp_all
    then show ?thesis unfolding step st2_def g1_def st1_def .
  qed
qed

lemma createGroup_short_pool:
  assumes "0 \<le> source_nstack st" "source_nstack st < n"
  shows "fst (sound_al_createGroup n st) = 0
         \<and> source_nstack (snd (sound_al_createGroup n st)) = 0"
proof -
  define g where "g = \<lparr>g_id = al_groupidgen st + 1, sources = replicate (nat n) 0,
                        nsources = n, g_state = VOICE_PLAYING, fade_timer = 0\<rparr>"
  define st1 where "st1 = st\<lparr>al_groupidgen := al_groupidgen st + 1\<rparr>"
  have "\<not> fst (createGroup_sources 0 n g st1)
         \<and> source_nstack (snd (snd (createGroup_sources 0 n g st1))) = 0"
    using assms by (intro createGroup_sources_short) (simp_all add: st1_def)
  moreover obtain ok g1 st2 where "createGroup_sources 0 n g st1 = (ok, g1, st2)"
    by (cases "createGroup_sources 0 n g st1") auto
  ultimately show ?thesis
    by (simp add: sound_al_createGroup_def Let_def g_def [symmetric] st1_def [symmetric])
qed

text \<open>
  C1.  A group of 3 is requested from a pool that holds 2 free sources.  The call
  returns the failure value 0 and drops the group entry again, but the two sources it
  had pulled before it ran out stay pulled: the free count is 0 instead of 2 and the
  general-purpose list is empty instead of holding 2 sources.  The error path of
  \<open>sound_al_createGroup\<close> frees the member array and decrements \<open>al_ngroups\<close>, and
  restores neither \<open>source_nstack\<close> nor \<open>source_total\<close>.
\<close>

theorem createGroup_partial_failure:
  "sound_al_createGroup 3 st_two =
     (0, st_two\<lparr>source_nstack := 0, source_ntotal := 0, al_groupidgen := 1\<rparr>)
   \<and> source_nstack st_two = 2 \<and> source_ntotal st_two = 2"
  by (simp add: sound_al_createGroup_def createGroup_sources.simps createGroup_total.simps
        memmove_down_def Let_def st_two_def)

subsection \<open>The sample format of a loaded WAV\<close>

lemma wav_mono16_header:
  "loadWav_header wav_mono16 =
     Inr (\<lparr>wh_channels = 1, wh_rate = 44100, wh_align = 16, wh_chunklen = 4\<rparr>,
          wav_mono16\<lparr>rw_pos := 44\<rparr>)"
  by (simp add: loadWav_header_def wav_mono16_def wav_example_def tag_def
        sound_al_wavReadCmp_def sound_al_wavGetLen32_def sound_al_wavGetLen16_def memcmp_def
        SDL_RWread_def SDL_RWseek_cur_def le16_def le32_def loadWav_skip_fact_def Let_def)

lemma wav_stereo16_header:
  "loadWav_header wav_stereo16 =
     Inr (\<lparr>wh_channels = 2, wh_rate = 44100, wh_align = 8, wh_chunklen = 4\<rparr>,
          wav_stereo16\<lparr>rw_pos := 44\<rparr>)"
  by (simp add: loadWav_header_def wav_stereo16_def wav_example_def tag_def
        sound_al_wavReadCmp_def sound_al_wavGetLen32_def sound_al_wavGetLen16_def memcmp_def
        SDL_RWread_def SDL_RWseek_cur_def le16_def le32_def loadWav_skip_fact_def Let_def)

lemma wav_stereo8_header:
  "loadWav_header wav_stereo8 =
     Inr (\<lparr>wh_channels = 2, wh_rate = 44100, wh_align = 4, wh_chunklen = 4\<rparr>,
          wav_stereo8\<lparr>rw_pos := 44\<rparr>)"
  by (simp add: loadWav_header_def wav_stereo8_def wav_example_def tag_def
        sound_al_wavReadCmp_def sound_al_wavGetLen32_def sound_al_wavGetLen16_def memcmp_def
        SDL_RWread_def SDL_RWseek_cur_def le16_def le32_def loadWav_skip_fact_def Let_def)

text \<open>
  The loop over the chunk data ends when the stream still holds what is left of the
  declared length: one read delivers it.
\<close>

lemma wav_drain_complete:
  assumes "i < chunklen" "rw_pos rw + unat (chunklen - i) \<le> length (rw_data rw)"
  shows "wav_drain rw buf i chunklen =
           Some (rw\<lparr>rw_pos := rw_pos rw + unat (chunklen - i)\<rparr>,
                 buf @ take (unat (chunklen - i)) (drop (rw_pos rw) (rw_data rw)))"
proof -
  from assms(1) have pos: "0 < unat (chunklen - i)"
    by (simp add: unat_gt_0)
  have rd: "SDL_RWread rw 1 (unat (chunklen - i)) =
          (take (unat (chunklen - i)) (drop (rw_pos rw) (rw_data rw)),
           int (unat (chunklen - i)), rw\<lparr>rw_pos := rw_pos rw + unat (chunklen - i)\<rparr>)"
  proof -
    from assms(2) have "unat (chunklen - i) \<le> length (rw_data rw) - rw_pos rw" by simp
    then have "min (unat (chunklen - i)) (length (rw_data rw) - rw_pos rw) = unat (chunklen - i)"
      by (rule min_absorb1)
    with pos show ?thesis by (simp add: SDL_RWread_def Let_def)
  qed
  have wrap: "i + word_of_int (int (unat (chunklen - i))) = chunklen"
    by simp
  have "wav_drain rw buf i chunklen =
          (case SDL_RWread rw 1 (unat (chunklen - i)) of (bytes, n, rw1) \<Rightarrow>
             wav_drain rw1 (buf @ bytes) (i + word_of_int n) chunklen)"
    using assms(1) by (subst wav_drain.simps) (simp only: if_True)
  also have "\<dots> = wav_drain (rw\<lparr>rw_pos := rw_pos rw + unat (chunklen - i)\<rparr>)
                       (buf @ take (unat (chunklen - i)) (drop (rw_pos rw) (rw_data rw)))
                       chunklen chunklen"
    by (simp only: rd prod.case wrap)
  also have "\<dots> = Some (rw\<lparr>rw_pos := rw_pos rw + unat (chunklen - i)\<rparr>,
                 buf @ take (unat (chunklen - i)) (drop (rw_pos rw) (rw_data rw)))"
    by (subst wav_drain.simps) simp
  finally show ?thesis .
qed

text \<open>
  Whatever a stereo header declares as bits per sample, the format chosen for it has
  another depth.
\<close>

lemma stereo_depth_never_declared:
  assumes "loadWav_format 2 (bits div 2) = Inr fmt"
  shows "al_format_bits fmt \<noteq> unat bits"
proof
  assume eq: "al_format_bits fmt = unat bits"
  from assms consider "bits div 2 = 16" "fmt = AL_FORMAT_STEREO16"
    | "bits div 2 = 8" "fmt = AL_FORMAT_STEREO8"
    by (auto simp: loadWav_format_def split: if_splits)
  then show False
  proof cases
    case 1
    from 1(1) have "unat (bits div 2) = unat (16 :: 16 word)" by (simp only:)
    then have "unat bits div 2 = 16" by (simp add: unat_div)
    with 1(2) eq show False by simp
  next
    case 2
    from 2(1) have "unat (bits div 2) = unat (8 :: 16 word)" by (simp only:)
    then have "unat bits div 2 = 8" by (simp add: unat_div)
    with 2(2) eq show False by simp
  qed
qed

text \<open>
  C2.  Three well-formed files of 44100 Hz with 4 payload bytes.  The mono 16-bit file
  loads into a buffer of format \<open>AL_FORMAT_MONO16\<close> with the declared rate and
  length.  The stereo file whose header declares 16 bits per sample (bytes 34 and 35)
  loads too, but into a buffer of format \<open>AL_FORMAT_STEREO8\<close>, which is 8 bits deep;
  and the stereo file that declares 8 bits per sample is refused.  The field read
  under "Get significant bits" is divided by the channel count before the format is
  chosen, so a stereo file never gets the depth its header states.
\<close>

theorem loadWav_stereo_depth:
  "sound_al_loadWav \<lparr>snd_buf = 0\<rparr> wav_mono16 dev_initial =
     Some (Inr (\<lparr>snd_buf = 1\<rparr>,
       dev_initial\<lparr>calls := [AlGenBuffers 1,
                                AlBufferData 1 AL_FORMAT_MONO16 [1, 2, 3, 4] 4 44100],
                     next_buffer := 2\<rparr>))
   \<and> le16 (take 2 (drop 34 (rw_data wav_stereo16))) = 16
   \<and> sound_al_loadWav \<lparr>snd_buf = 0\<rparr> wav_stereo16 dev_initial =
     Some (Inr (\<lparr>snd_buf = 1\<rparr>,
       dev_initial\<lparr>calls := [AlGenBuffers 1,
                                AlBufferData 1 AL_FORMAT_STEREO8 [1, 2, 3, 4] 4 44100],
                     next_buffer := 2\<rparr>))
   \<and> al_format_bits AL_FORMAT_STEREO8 = 8
   \<and> le16 (take 2 (drop 34 (rw_data wav_stereo8))) = 8
   \<and> sound_al_loadWav \<lparr>snd_buf = 0\<rparr> wav_stereo8 dev_initial =
     Some (Inl (Warn ''Unsupported byte alignment in WAVE file.''))"
proof -
  have mono: "wav_drain (wav_mono16\<lparr>rw_pos := 44\<rparr>) [] 0 4 =
                Some (wav_mono16\<lparr>rw_pos := 48\<rparr>, [1, 2, 3, 4])"
    by (subst wav_drain_complete) (simp_all add: wav_mono16_def wav_example_def tag_def)
  have stereo16: "wav_drain (wav_stereo16\<lparr>rw_pos := 44\<rparr>) [] 0 4 =
                Some (wav_stereo16\<lparr>rw_pos := 48\<rparr>, [1, 2, 3, 4])"
    by (subst wav_drain_complete) (simp_all add: wav_stereo16_def wav_example_def tag_def)
  have stereo8: "wav_drain (wav_stereo8\<lparr>rw_pos := 44\<rparr>) [] 0 4 =
                Some (wav_stereo8\<lparr>rw_pos := 48\<rparr>, [1, 2, 3, 4])"
    by (subst wav_drain_complete) (simp_all add: wav_stereo8_def wav_example_def tag_def)
  have "sound_al_loadWav \<lparr>snd_buf = 0\<rparr> wav_mono16 dev_initial =
     Some (Inr (\<lparr>snd_buf = 1\<rparr>,
       dev_initial\<lparr>calls := [AlGenBuffers 1,
                                AlBufferData 1 AL_FORMAT_MONO16 [1, 2, 3, 4] 4 44100],
                     next_buffer := 2\<rparr>))"
    by (simp add: sound_al_loadWav_def wav_mono16_header mono loadWav_format_def
          alGenBuffers_def alBufferData_def dev_initial_def)
  moreover have "sound_al_loadWav \<lparr>snd_buf = 0\<rparr> wav_stereo16 dev_initial =
     Some (Inr (\<lparr>snd_buf = 1\<rparr>,
       dev_initial\<lparr>calls := [AlGenBuffers 1,
                                AlBufferData 1 AL_FORMAT_STEREO8 [1, 2, 3, 4] 4 44100],
                     next_buffer := 2\<rparr>))"
    by (simp add: sound_al_loadWav_def wav_stereo16_header stereo16 loadWav_format_def
          alGenBuffers_def alBufferData_def dev_initial_def)
  moreover have "sound_al_loadWav \<lparr>snd_buf = 0\<rparr> wav_stereo8 dev_initial =
     Some (Inl (Warn ''Unsupported byte alignment in WAVE file.''))"
    by (simp add: sound_al_loadWav_def wav_stereo8_header stereo8 loadWav_format_def)
  moreover have "le16 (take 2 (drop 34 (rw_data wav_stereo16))) = 16"
    by (simp add: wav_stereo16_def wav_example_def tag_def le16_def)
  moreover have "le16 (take 2 (drop 34 (rw_data wav_stereo8))) = 8"
    by (simp add: wav_stereo8_def wav_example_def tag_def le16_def)
  ultimately show ?thesis by simp
qed

subsection \<open>Draining a stream that ends early\<close>

text \<open>
  At the end of the stream a read delivers nothing, so neither loop advances: a loop
  entered with the stream exhausted and bytes still owed does not end.
\<close>

lemma SDL_RWread_exhausted:
  "length (rw_data rw) \<le> rw_pos rw \<Longrightarrow> SDL_RWread rw sz n = ([], 0, rw)"
  by (simp add: SDL_RWread_def Let_def)

lemma wav_drain_exhausted_aux:
  assumes "wav_drain rw buf i chunklen = Some y"
  shows "\<not> (length (rw_data rw) \<le> rw_pos rw \<and> i < chunklen)"
proof (rule wav_drain.raw_induct
    [where P = "\<lambda>rw buf i chunklen y. \<not> (length (rw_data rw) \<le> rw_pos rw \<and> i < chunklen)",
     OF _ assms])
  fix f rw buf i chunklen y
  assume 1: "\<And>rw buf i chunklen y. f rw buf i chunklen = Some y \<Longrightarrow>
               \<not> (length (rw_data rw) \<le> rw_pos rw \<and> i < chunklen)"
    "(if i < chunklen then
        (case SDL_RWread rw 1 (unat (chunklen - i)) of (bytes, n, rw1) \<Rightarrow>
           f rw1 (buf @ bytes) (i + word_of_int n) chunklen)
      else Some (rw, buf)) = Some y"
  show "\<not> (length (rw_data rw) \<le> rw_pos rw \<and> i < chunklen)"
  proof
    assume ex: "length (rw_data rw) \<le> rw_pos rw \<and> i < chunklen"
    with 1(2) have "f rw buf i chunklen = Some y"
      by (simp add: SDL_RWread_exhausted)
    from 1(1) [OF this] ex show False by simp
  qed
qed

lemma wav_drain_exhausted:
  "length (rw_data rw) \<le> rw_pos rw \<Longrightarrow> i < chunklen \<Longrightarrow> wav_drain rw buf i chunklen = None"
  using wav_drain_exhausted_aux [of rw buf i chunklen] by (cases "wav_drain rw buf i chunklen") auto

lemma ov_read_exhausted: "ov_pcm vf = [] \<Longrightarrow> ov_read vf n = ([], 0, vf)"
  by (simp add: ov_read_def)

lemma ogg_drain_exhausted_aux:
  assumes "ogg_drain vf buf i len = Some y"
  shows "\<not> (ov_pcm vf = [] \<and> i < len)"
proof (rule ogg_drain.raw_induct
    [where P = "\<lambda>vf buf i len y. \<not> (ov_pcm vf = [] \<and> i < len)", OF _ assms])
  fix f vf buf i len y
  assume 1: "\<And>vf buf i len y. f vf buf i len = Some y \<Longrightarrow> \<not> (ov_pcm vf = [] \<and> i < len)"
    "(if i < len then
        (case ov_read vf (len - i) of (bytes, n, vf1) \<Rightarrow> f vf1 (buf @ bytes) (i + n) len)
      else Some (vf, buf)) = Some y"
  show "\<not> (ov_pcm vf = [] \<and> i < len)"
  proof
    assume ex: "ov_pcm vf = [] \<and> i < len"
    with 1(2) have "f vf buf i len = Some y"
      by (simp add: ov_read_exhausted)
    from 1(1) [OF this] ex show False by simp
  qed
qed

lemma ogg_drain_exhausted:
  "ov_pcm vf = [] \<Longrightarrow> i < len \<Longrightarrow> ogg_drain vf buf i len = None"
  using ogg_drain_exhausted_aux [of vf buf i len] by (cases "ogg_drain vf buf i len") auto

text \<open>
  So a loop entered with fewer bytes left in the stream than it still owes does not
  end either: the first read takes what is left, and the count stays short.
\<close>

lemma word_step_below:
  fixes i chunklen :: "32 word"
  assumes "i < chunklen" "a < unat (chunklen - i)"
  shows "i + word_of_int (int a) < chunklen"
proof -
  have sub: "unat (chunklen - i) = unat chunklen - unat i"
    using assms(1) by (simp add: unat_sub word_le_less_eq)
  have il: "unat i < unat chunklen" using assms(1) by (simp add: word_less_nat_alt)
  have c32: "unat chunklen < 2 ^ 32"
    using unsigned_less [of chunklen, where ?'a = nat] by simp
  have sum: "unat i + a < unat chunklen" using assms(2) sub il by simp
  with c32 have a32: "a < 2 ^ 32" by simp
  then have ua: "unat (word_of_nat a :: 32 word) = a"
    by (simp add: unat_of_nat)
  have "unat i + unat (word_of_nat a :: 32 word) < 2 ^ LENGTH(32)"
    using sum c32 ua by simp
  then have "unat (i + word_of_nat a) = unat i + unat (word_of_nat a :: 32 word)"
    by (simp only: unat_add_lem)
  with sum ua have "i + word_of_nat a < chunklen"
    by (simp add: word_less_nat_alt)
  then show ?thesis by simp
qed

lemma wav_drain_short:
  assumes "i < chunklen" "length (rw_data rw) - rw_pos rw < unat (chunklen - i)"
  shows "wav_drain rw buf i chunklen = None"
proof -
  define a where "a = length (rw_data rw) - rw_pos rw"
  have pos: "0 < unat (chunklen - i)" using assms(2) by simp
  have rd: "SDL_RWread rw 1 (unat (chunklen - i)) =
              (take a (drop (rw_pos rw) (rw_data rw)), int a, rw\<lparr>rw_pos := rw_pos rw + a\<rparr>)"
  proof -
    have "min (unat (chunklen - i)) (length (rw_data rw) - rw_pos rw) = a"
      using assms(2) by (simp add: a_def)
    with pos show ?thesis by (simp add: SDL_RWread_def Let_def)
  qed
  have "wav_drain rw buf i chunklen =
          (case SDL_RWread rw 1 (unat (chunklen - i)) of (bytes, n, rw1) \<Rightarrow>
             wav_drain rw1 (buf @ bytes) (i + word_of_int n) chunklen)"
    using assms(1) by (subst wav_drain.simps) (simp only: if_True)
  also have "\<dots> = wav_drain (rw\<lparr>rw_pos := rw_pos rw + a\<rparr>)
                       (buf @ take a (drop (rw_pos rw) (rw_data rw)))
                       (i + word_of_int (int a)) chunklen"
    by (simp only: rd prod.case)
  also have "\<dots> = None"
  proof (rule wav_drain_exhausted)
    show "length (rw_data (rw\<lparr>rw_pos := rw_pos rw + a\<rparr>)) \<le> rw_pos (rw\<lparr>rw_pos := rw_pos rw + a\<rparr>)"
      by (simp add: a_def)
    show "i + word_of_int (int a) < chunklen"
      using assms unfolding a_def by (rule word_step_below)
  qed
  finally show ?thesis .
qed

lemma ogg_drain_short:
  assumes "i < len" "int (length (ov_pcm vf)) < len - i"
  shows "ogg_drain vf buf i len = None"
proof -
  have rd: "ov_read vf (len - i) = (ov_pcm vf, int (length (ov_pcm vf)), vf\<lparr>ov_pcm := []\<rparr>)"
  proof -
    from assms(2) have "min (nat (len - i)) (length (ov_pcm vf)) = length (ov_pcm vf)"
      by simp
    then show ?thesis by (simp add: ov_read_def Let_def)
  qed
  have "ogg_drain vf buf i len =
          (case ov_read vf (len - i) of (bytes, n, vf1) \<Rightarrow> ogg_drain vf1 (buf @ bytes) (i + n) len)"
    using assms(1) by (subst ogg_drain.simps) (simp only: if_True)
  also have "\<dots> = ogg_drain (vf\<lparr>ov_pcm := []\<rparr>) (buf @ ov_pcm vf) (i + int (length (ov_pcm vf))) len"
    by (simp only: rd prod.case)
  also have "\<dots> = None"
    using assms by (intro ogg_drain_exhausted) simp_all
  finally show ?thesis .
qed

lemma loadWav_short_payload:
  assumes "loadWav_header rw = Inr (h, rw1)"
      and "length (rw_data rw1) - rw_pos rw1 < unat (wh_chunklen h)"
  shows "sound_al_loadWav sound rw dev = None"
proof -
  from assms(2) have "0 < unat (wh_chunklen h)" by simp
  then have "0 < wh_chunklen h" by (simp add: word_less_nat_alt)
  moreover from assms(2) have "length (rw_data rw1) - rw_pos rw1 < unat (wh_chunklen h - 0)"
    by simp
  ultimately have "wav_drain rw1 [] 0 (wh_chunklen h) = None"
    by (rule wav_drain_short)
  with assms(1) show ?thesis by (simp add: sound_al_loadWav_def)
qed

lemma wav_truncated_header:
  "loadWav_header wav_truncated =
     Inr (\<lparr>wh_channels = 1, wh_rate = 44100, wh_align = 16, wh_chunklen = 4\<rparr>,
          wav_truncated\<lparr>rw_pos := 44\<rparr>)"
  by (simp add: loadWav_header_def wav_truncated_def wav_example_def tag_def
        sound_al_wavReadCmp_def sound_al_wavGetLen32_def sound_al_wavGetLen16_def memcmp_def
        SDL_RWread_def SDL_RWseek_cur_def le16_def le32_def loadWav_skip_fact_def Let_def)

lemma wav_truncated_drain: "wav_drain (wav_truncated\<lparr>rw_pos := 44\<rparr>) [] 0 4 = None"
proof -
  have "wav_drain (wav_truncated\<lparr>rw_pos := 44\<rparr>) [] 0 4 =
        wav_drain (wav_truncated\<lparr>rw_pos := 46\<rparr>) [1, 2] 2 4"
    by (subst wav_drain.simps)
       (simp add: SDL_RWread_def wav_truncated_def wav_example_def tag_def)
  also have "\<dots> = None"
    by (rule wav_drain_exhausted) (simp_all add: wav_truncated_def wav_example_def tag_def)
  finally show ?thesis .
qed

lemma ogg_truncated_drain: "ogg_drain ogg_truncated [] 0 4 = None"
proof -
  have "ogg_drain ogg_truncated [] 0 4 = ogg_drain (ogg_truncated\<lparr>ov_pcm := []\<rparr>) [1, 2] 2 4"
    by (subst ogg_drain.simps) (simp add: ov_read_def ogg_truncated_def)
  also have "\<dots> = None"
    by (rule ogg_drain_exhausted) simp_all
  finally show ?thesis .
qed

text \<open>
  C3.  A WAV whose data chunk declares 4 bytes and whose stream ends after 2 of them,
  and an Ogg that announces 4 bytes of samples and decodes to 2: on both,
  the load does not return (the value \<open>None\<close>), so it returns no error either.  The
  header reads of \<open>sound_al_loadWav\<close> test the count that \<open>SDL_RWread\<close> returns; the
  two payload loops add it to \<open>i\<close> untested, and at the end of the stream it is 0.
\<close>

theorem drain_truncated:
  "sound_al_loadWav \<lparr>snd_buf = 0\<rparr> wav_truncated dev_initial = None
   \<and> sound_al_loadOgg \<lparr>snd_buf = 0\<rparr> ogg_truncated dev_initial = None"
proof -
  have "sound_al_loadOgg \<lparr>snd_buf = 0\<rparr> ogg_truncated dev_initial = None"
    using ogg_truncated_drain by (simp add: sound_al_loadOgg_def ogg_truncated_def)
  moreover have "sound_al_loadWav \<lparr>snd_buf = 0\<rparr> wav_truncated dev_initial = None"
    by (simp add: sound_al_loadWav_def wav_truncated_header wav_truncated_drain)
  ultimately show ?thesis by simp
qed

subsection \<open>Stopping a group\<close>

text \<open>
  \<open>sound_al_stopGroup\<close> looks at the first entry of the group list only: when that
  entry has another id, the call changes nothing and warns of nothing.
\<close>

lemma stopGroup_other_first:
  assumes "al_groups st \<noteq> []" "g_id (al_groups st ! 0) \<noteq> grp"
  shows "sound_al_stopGroup grp ticks st = st"
  using assms by (simp add: sound_al_stopGroup_def stopGroup_loop_def)

text \<open>
  C4.  Two groups, ids 1 and 2, neither fading.  Stopping group 2, the second entry
  of the list, leaves the whole state as it was: group 2 is not set to
  \<open>VOICE_FADEOUT\<close> and gets no fade start time.  Stopping group 1, the first entry,
  does what the claim says: the group is \<open>VOICE_FADEOUT\<close> with the current tick count
  as its fade start, and the device has received no call.  The \<open>break\<close> of the loop
  stands outside the \<open>if\<close>; in \<open>sound_al_pauseGroup\<close> and \<open>sound_al_resumeGroup\<close> it
  stands inside.
\<close>

theorem stopGroup_second_group:
  "g_id (al_groups st_groups ! 1) = 2
   \<and> sound_al_stopGroup 2 500 st_groups = st_groups
   \<and> g_state (al_groups (sound_al_stopGroup 2 500 st_groups) ! 1) = VOICE_PLAYING
   \<and> g_state (al_groups (sound_al_stopGroup 1 500 st_groups) ! 0) = VOICE_FADEOUT
   \<and> fade_timer (al_groups (sound_al_stopGroup 1 500 st_groups) ! 0) = 500
   \<and> calls (al (sound_al_stopGroup 1 500 st_groups)) = calls (al st_groups)"
  by (simp add: sound_al_stopGroup_def stopGroup_loop_def st_groups_def)

subsection \<open>Playing into a group\<close>

text \<open>
  The loop over the members returns from inside whenever the group has a member, and
  with every member before the last one busy it reaches the last one.
\<close>

lemma playGroup_sources_found:
  "int j < nsources g \<Longrightarrow> fst (playGroup_sources j g s once vol dev)"
proof (induction j g s once vol dev rule: playGroup_sources.induct)
  case (1 j g s once vol dev)
  show ?case
  proof (cases "int j = nsources g - 1")
    case True
    with "1.prems" show ?thesis by (subst playGroup_sources.simps) (simp add: Let_def)
  next
    case False
    with "1.prems" have next_ok: "int (Suc j) < nsources g" by simp
    show ?thesis
    proof (cases "alGetSourcei_state (sources g ! j) dev = AL_PLAYING
                  \<or> alGetSourcei_state (sources g ! j) dev = AL_PAUSED")
      case True
      have "fst (playGroup_sources (Suc j) g s once vol dev)"
        using "1.IH" [OF "1.prems" refl False True next_ok] .
      with "1.prems" False True show ?thesis
        by (subst playGroup_sources.simps) (simp add: Let_def)
    next
      case idle: False
      with "1.prems" False show ?thesis
        by (subst playGroup_sources.simps) (simp add: Let_def)
    qed
  qed
qed

lemma playGroup_sources_busy:
  assumes "int j < nsources g"
      and "\<forall>k. j \<le> k \<and> int k < nsources g - 1 \<longrightarrow>
             alGetSourcei_state (sources g ! k) dev = AL_PLAYING
             \<or> alGetSourcei_state (sources g ! k) dev = AL_PAUSED"
  shows "playGroup_sources j g s once vol dev =
     (True, playGroup_start (sources g ! nat (nsources g - 1)) s once
        (if alGetSourcei_state (sources g ! nat (nsources g - 1)) dev \<noteq> AL_STOPPED
         then alSourcef (sources g ! nat (nsources g - 1)) AL_GAIN vol
                (alSourceStop (sources g ! nat (nsources g - 1)) dev)
         else dev))"
  using assms
proof (induction j g s once vol dev rule: playGroup_sources.induct)
  case (1 j g s once vol dev)
  show ?case
  proof (cases "int j = nsources g - 1")
    case True
    then have "nat (nsources g - 1) = j" by simp
    with "1.prems"(1) True show ?thesis
      by (subst playGroup_sources.simps) (simp add: Let_def)
  next
    case False
    with "1.prems"(1) have next_ok: "int (Suc j) < nsources g" by simp
    from False "1.prems" have busy:
      "alGetSourcei_state (sources g ! j) dev = AL_PLAYING
       \<or> alGetSourcei_state (sources g ! j) dev = AL_PAUSED" by simp
    have rest: "\<forall>k. Suc j \<le> k \<and> int k < nsources g - 1 \<longrightarrow>
             alGetSourcei_state (sources g ! k) dev = AL_PLAYING
             \<or> alGetSourcei_state (sources g ! k) dev = AL_PAUSED"
      using "1.prems"(2) by simp
    have "playGroup_sources j g s once vol dev = playGroup_sources (Suc j) g s once vol dev"
      using "1.prems"(1) False busy by (subst playGroup_sources.simps) (simp add: Let_def)
    also note "1.IH" [OF "1.prems"(1) refl False busy next_ok rest]
    finally show ?thesis .
  qed
qed

text \<open>The loop over the groups runs to the first entry with the id, or to the end.\<close>

lemma playGroup_groups_skip:
  assumes "i \<le> idx" "idx < length (al_groups st)"
      and "\<forall>k. i \<le> k \<and> k < idx \<longrightarrow> g_id (al_groups st ! k) \<noteq> grp"
  shows "playGroup_groups i grp s once st = playGroup_groups idx grp s once st"
  using assms
proof (induction i grp s once st rule: playGroup_groups.induct)
  case (1 i grp s once st)
  show ?case
  proof (cases "i = idx")
    case True
    then show ?thesis by simp
  next
    case False
    with "1.prems" have lt: "i < idx" by simp
    with "1.prems" have il: "i < length (al_groups st)" and ne: "g_id (al_groups st ! i) \<noteq> grp"
      by simp_all
    have "playGroup_groups i grp s once st = playGroup_groups (Suc i) grp s once st"
      using il ne by (subst playGroup_groups.simps) simp
    also have "\<dots> = playGroup_groups idx grp s once st"
      using "1.IH" [OF il ne] lt "1.prems" by simp
    finally show ?thesis .
  qed
qed

lemma playGroup_groups_absent:
  assumes "\<forall>k. i \<le> k \<and> k < length (al_groups st) \<longrightarrow> g_id (al_groups st ! k) \<noteq> grp"
  shows "playGroup_groups i grp s once st =
           (- 1, st\<lparr>warnings := warnings st @ [Group_not_found grp]\<rparr>)"
  using assms
proof (induction i grp s once st rule: playGroup_groups.induct)
  case (1 i grp s once st)
  show ?case
  proof (cases "i < length (al_groups st)")
    case True
    with "1.prems" have ne: "g_id (al_groups st ! i) \<noteq> grp" by simp
    have "playGroup_groups i grp s once st = playGroup_groups (Suc i) grp s once st"
      using True ne by (subst playGroup_groups.simps) simp
    also have "\<dots> = (- 1, st\<lparr>warnings := warnings st @ [Group_not_found grp]\<rparr>)"
      using "1.IH" [OF True ne] "1.prems" by simp
    finally show ?thesis .
  next
    case False
    then show ?thesis by (subst playGroup_groups.simps) simp
  qed
qed

lemma playGroup_at:
  assumes "idx < length (al_groups st)" "g_id (al_groups st ! idx) = grp"
      and "\<forall>k<idx. g_id (al_groups st ! k) \<noteq> grp"
  shows "sound_al_playGroup grp s once st =
     (case playGroup_sources 0 ((al_groups st ! idx)\<lparr>g_state := VOICE_PLAYING\<rparr>) s once
             (svolume st) (al st) of
        (True, dev) \<Rightarrow>
          (0, st\<lparr>al_groups := (al_groups st)
                    [idx := (al_groups st ! idx)\<lparr>g_state := VOICE_PLAYING\<rparr>], al := dev\<rparr>)
      | (False, dev) \<Rightarrow>
          (- 1, st\<lparr>al_groups := (al_groups st)
                      [idx := (al_groups st ! idx)\<lparr>g_state := VOICE_PLAYING\<rparr>], al := dev,
                   warnings := warnings st @ [Group_has_no_free_sounds grp]\<rparr>))"
proof -
  have "sound_al_playGroup grp s once st = playGroup_groups idx grp s once st"
    unfolding sound_al_playGroup_def
    using assms by (intro playGroup_groups_skip) simp_all
  also have "\<dots> = (case playGroup_sources 0 ((al_groups st ! idx)\<lparr>g_state := VOICE_PLAYING\<rparr>)
                             s once (svolume st) (al st) of
        (True, dev) \<Rightarrow>
          (0, st\<lparr>al_groups := (al_groups st)
                    [idx := (al_groups st ! idx)\<lparr>g_state := VOICE_PLAYING\<rparr>], al := dev\<rparr>)
      | (False, dev) \<Rightarrow>
          (- 1, st\<lparr>al_groups := (al_groups st)
                      [idx := (al_groups st ! idx)\<lparr>g_state := VOICE_PLAYING\<rparr>], al := dev,
                   warnings := warnings st @ [Group_has_no_free_sounds grp]\<rparr>))"
    using assms(1,2)
    by (subst playGroup_groups.simps) (simp add: Let_def split: prod.splits bool.splits)
  finally show ?thesis .
qed

text \<open>
  C5, as amended.  Let the first group with id \<open>grp\<close> stand at \<open>idx\<close> and hold
  \<open>N\<close> members.  If \<open>N \<ge> 1\<close>, \<open>sound_al_playGroup\<close> returns 0.  If moreover all
  \<open>N\<close> members are playing or paused, the calls it issues are, in this order, a stop
  of the last member, its gain set to the global volume, the buffer bound to it, the
  relative and looping flags, and its start: every call names the last member, index
  \<open>N - 1\<close>, and no other source changes its playback state.  The call returns \<open>-1\<close>
  when the group has no member (\<open>N \<le> 0\<close>), and when no group has the id.
\<close>

theorem playGroup_policy:
  "(idx < length (al_groups st) \<and> g_id (al_groups st ! idx) = grp
      \<and> (\<forall>k<idx. g_id (al_groups st ! k) \<noteq> grp)
      \<and> 1 \<le> nsources (al_groups st ! idx)
    \<longrightarrow> fst (sound_al_playGroup grp s once st) = 0)
   \<and> (idx < length (al_groups st) \<and> g_id (al_groups st ! idx) = grp
      \<and> (\<forall>k<idx. g_id (al_groups st ! k) \<noteq> grp)
      \<and> nsources (al_groups st ! idx) = int (length (sources (al_groups st ! idx)))
      \<and> 1 \<le> nsources (al_groups st ! idx)
      \<and> (\<forall>src \<in> set (sources (al_groups st ! idx)).
            alGetSourcei_state src (al st) = AL_PLAYING
            \<or> alGetSourcei_state src (al st) = AL_PAUSED)
    \<longrightarrow> calls (al (snd (sound_al_playGroup grp s once st))) =
          calls (al st) @
            [AlSourceStop (last (sources (al_groups st ! idx))),
             AlSourcef (last (sources (al_groups st ! idx))) AL_GAIN (svolume st),
             AlSourcei (last (sources (al_groups st ! idx))) AL_BUFFER (snd_buf s),
             AlSourcei (last (sources (al_groups st ! idx))) AL_SOURCE_RELATIVE AL_TRUE,
             AlSourcei (last (sources (al_groups st ! idx))) AL_LOOPING
               (if once \<noteq> 0 then AL_FALSE else AL_TRUE),
             AlSourcePlay (last (sources (al_groups st ! idx)))]
        \<and> src_state (al (snd (sound_al_playGroup grp s once st))) =
            (src_state (al st))(last (sources (al_groups st ! idx)) := AL_PLAYING))
   \<and> (idx < length (al_groups st) \<and> g_id (al_groups st ! idx) = grp
      \<and> (\<forall>k<idx. g_id (al_groups st ! k) \<noteq> grp)
      \<and> nsources (al_groups st ! idx) \<le> 0
    \<longrightarrow> fst (sound_al_playGroup grp s once st) = - 1)
   \<and> ((\<forall>g \<in> set (al_groups st). g_id g \<noteq> grp)
    \<longrightarrow> fst (sound_al_playGroup grp s once st) = - 1)"
proof (intro conjI impI)
  assume h: "idx < length (al_groups st) \<and> g_id (al_groups st ! idx) = grp
      \<and> (\<forall>k<idx. g_id (al_groups st ! k) \<noteq> grp)
      \<and> 1 \<le> nsources (al_groups st ! idx)"
  then have at: "idx < length (al_groups st)" "g_id (al_groups st ! idx) = grp"
      "\<forall>k<idx. g_id (al_groups st ! k) \<noteq> grp" by simp_all
  from h have "1 \<le> nsources (al_groups st ! idx)" by blast
  then have "int 0 < nsources ((al_groups st ! idx)\<lparr>g_state := VOICE_PLAYING\<rparr>)" by simp
  from playGroup_sources_found [OF this]
  have "fst (playGroup_sources 0 ((al_groups st ! idx)\<lparr>g_state := VOICE_PLAYING\<rparr>) s once
               (svolume st) (al st))" .
  then show "fst (sound_al_playGroup grp s once st) = 0"
    unfolding playGroup_at [OF at] by (auto split: prod.splits bool.splits)
next
  assume h: "idx < length (al_groups st) \<and> g_id (al_groups st ! idx) = grp
      \<and> (\<forall>k<idx. g_id (al_groups st ! k) \<noteq> grp)
      \<and> nsources (al_groups st ! idx) = int (length (sources (al_groups st ! idx)))
      \<and> 1 \<le> nsources (al_groups st ! idx)
      \<and> (\<forall>src \<in> set (sources (al_groups st ! idx)).
            alGetSourcei_state src (al st) = AL_PLAYING
            \<or> alGetSourcei_state src (al st) = AL_PAUSED)"
  then have at: "idx < length (al_groups st)" "g_id (al_groups st ! idx) = grp"
      "\<forall>k<idx. g_id (al_groups st ! k) \<noteq> grp" by simp_all
  define g where "g = (al_groups st ! idx)\<lparr>g_state := VOICE_PLAYING\<rparr>"
  define l where "l = last (sources (al_groups st ! idx))"
  from h have "nsources (al_groups st ! idx) = int (length (sources (al_groups st ! idx)))"
    and "1 \<le> nsources (al_groups st ! idx)" by blast+
  then have sized: "nsources g = int (length (sources g))" and pos: "int 0 < nsources g"
    by (auto simp add: g_def)
  from sized pos have "0 < length (sources g)" by simp
  then have ne: "sources g \<noteq> []" by simp
  have lidx: "sources g ! nat (nsources g - 1) = l"
    using sized ne by (simp add: l_def g_def last_conv_nth nat_diff_distrib')
  have "sources (al_groups st ! idx) \<noteq> []"
    using ne by (simp add: g_def)
  then have "l \<in> set (sources (al_groups st ! idx))"
    unfolding l_def by (rule last_in_set)
  with h have lbusy:
    "alGetSourcei_state l (al st) = AL_PLAYING \<or> alGetSourcei_state l (al st) = AL_PAUSED"
    by blast
  have busy: "\<forall>k. 0 \<le> k \<and> int k < nsources g - 1 \<longrightarrow>
             alGetSourcei_state (sources g ! k) (al st) = AL_PLAYING
             \<or> alGetSourcei_state (sources g ! k) (al st) = AL_PAUSED"
    using h sized by (simp add: g_def)
  have run: "playGroup_sources 0 g s once (svolume st) (al st) =
     (True, playGroup_start l s once (alSourcef l AL_GAIN (svolume st) (alSourceStop l (al st))))"
    using playGroup_sources_busy [OF pos busy, of s once "svolume st"] lbusy
    unfolding lidx by auto
  have res: "al (snd (sound_al_playGroup grp s once st)) =
     playGroup_start l s once (alSourcef l AL_GAIN (svolume st) (alSourceStop l (al st)))"
    unfolding playGroup_at [OF at] g_def [symmetric] run by simp
  show "calls (al (snd (sound_al_playGroup grp s once st))) =
          calls (al st) @
            [AlSourceStop (last (sources (al_groups st ! idx))),
             AlSourcef (last (sources (al_groups st ! idx))) AL_GAIN (svolume st),
             AlSourcei (last (sources (al_groups st ! idx))) AL_BUFFER (snd_buf s),
             AlSourcei (last (sources (al_groups st ! idx))) AL_SOURCE_RELATIVE AL_TRUE,
             AlSourcei (last (sources (al_groups st ! idx))) AL_LOOPING
               (if once \<noteq> 0 then AL_FALSE else AL_TRUE),
             AlSourcePlay (last (sources (al_groups st ! idx)))]"
    unfolding res l_def [symmetric]
    by (simp add: playGroup_start_def alSourcei_def alSourcef_def alSourceStop_def
          alSourcePlay_def Let_def)
  show "src_state (al (snd (sound_al_playGroup grp s once st))) =
            (src_state (al st))(last (sources (al_groups st ! idx)) := AL_PLAYING)"
    unfolding res l_def [symmetric]
    by (simp add: playGroup_start_def alSourcei_def alSourcef_def alSourceStop_def
          alSourcePlay_def Let_def)
next
  assume h: "idx < length (al_groups st) \<and> g_id (al_groups st ! idx) = grp
      \<and> (\<forall>k<idx. g_id (al_groups st ! k) \<noteq> grp)
      \<and> nsources (al_groups st ! idx) \<le> 0"
  then have at: "idx < length (al_groups st)" "g_id (al_groups st ! idx) = grp"
      "\<forall>k<idx. g_id (al_groups st ! k) \<noteq> grp" by simp_all
  have "playGroup_sources 0 ((al_groups st ! idx)\<lparr>g_state := VOICE_PLAYING\<rparr>) s once
               (svolume st) (al st) = (False, al st)"
    using h by (subst playGroup_sources.simps) simp
  then show "fst (sound_al_playGroup grp s once st) = - 1"
    unfolding playGroup_at [OF at] by simp
next
  assume "\<forall>g \<in> set (al_groups st). g_id g \<noteq> grp"
  then have "\<forall>k. 0 \<le> k \<and> k < length (al_groups st) \<longrightarrow> g_id (al_groups st ! k) \<noteq> grp"
    by simp
  from playGroup_groups_absent [OF this]
  show "fst (sound_al_playGroup grp s once st) = - 1"
    by (simp add: sound_al_playGroup_def)
qed

text \<open>
  The theorem at a group of two busy members (success, the last member 1 reused), at a
  group without members and at an id that no group has (failure).
\<close>

theorem playGroup_policy_witness:
  "fst (sound_al_playGroup 1 sound5 1 st_busy) = 0
   \<and> calls (al (snd (sound_al_playGroup 1 sound5 1 st_busy))) =
       [AlSourceStop 1, AlSourcef 1 AL_GAIN 1, AlSourcei 1 AL_BUFFER 5,
        AlSourcei 1 AL_SOURCE_RELATIVE AL_TRUE, AlSourcei 1 AL_LOOPING AL_FALSE,
        AlSourcePlay 1]
   \<and> fst (sound_al_playGroup 1 sound5 1 st_empty_group) = - 1
   \<and> fst (sound_al_playGroup 7 sound5 1 st_busy) = - 1"
  using playGroup_policy [of 0 st_busy 1 sound5 1]
        playGroup_policy [of 0 st_empty_group 1 sound5 1]
        playGroup_policy [of 0 st_busy 7 sound5 1]
  by (simp add: st_busy_def st_empty_group_def sound5_def dev_playing_def
        alGetSourcei_state_def)

text \<open>
  C5 as stated fails at a group that exists and has no member:
  \<open>sound_al_createGroup(0)\<close> on a pool of two returns the id 1 of a new group, and
  playing into group 1 returns \<open>-1\<close>.
\<close>

theorem playGroup_empty_group_counterexample:
  "fst (sound_al_createGroup 0 st_two) = 1
   \<and> map g_id (al_groups (snd (sound_al_createGroup 0 st_two))) = [1]
   \<and> fst (sound_al_playGroup 1 sound5 1 (snd (sound_al_createGroup 0 st_two))) = - 1"
  by (simp add: sound_al_createGroup_def createGroup_sources.simps Let_def st_two_def
        sound_al_playGroup_def playGroup_groups.simps playGroup_sources.simps)

subsection \<open>The sweep of a voice\<close>

text \<open>
  C6.  A voice holds a source other than 0.  If the device reports the source stopped,
  \<open>sound_al_updateVoice\<close> issues exactly one call, which sets the source's buffer
  to \<open>AL_NONE\<close>; the free count grows by one; the voice's source reference is 0
  and its state \<open>VOICE_STOPPED\<close>; and where the old free count points into the pool
  array, the source stands at that place, on top of the free entries, which are
  unchanged.  If the device reports any other playback state, playing included, the
  call issues the gain (the global volume), the cached position and the cached
  velocity for the source, in this order, and changes neither the pool nor the voice.
\<close>

theorem updateVoice_sweep:
  "(v_source v \<noteq> 0 \<and> alGetSourcei_state (v_source v) (al st) = AL_STOPPED \<longrightarrow>
      calls (al (snd (sound_al_updateVoice v st)))
        = calls (al st) @ [AlSourcei (v_source v) AL_BUFFER AL_NONE]
      \<and> source_nstack (snd (sound_al_updateVoice v st)) = source_nstack st + 1
      \<and> v_source (fst (sound_al_updateVoice v st)) = 0
      \<and> v_state (fst (sound_al_updateVoice v st)) = VOICE_STOPPED
      \<and> (0 \<le> source_nstack st \<and> source_nstack st < int (length (source_stack st)) \<longrightarrow>
           source_stack (snd (sound_al_updateVoice v st)) ! nat (source_nstack st) = v_source v
           \<and> take (nat (source_nstack st)) (source_stack (snd (sound_al_updateVoice v st)))
               = take (nat (source_nstack st)) (source_stack st)))
   \<and> (v_source v \<noteq> 0 \<and> alGetSourcei_state (v_source v) (al st) \<noteq> AL_STOPPED \<longrightarrow>
      calls (al (snd (sound_al_updateVoice v st)))
        = calls (al st) @ [AlSourcef (v_source v) AL_GAIN (svolume st),
                           AlSourcefv (v_source v) AL_POSITION (v_pos v),
                           AlSourcefv (v_source v) AL_VELOCITY (v_vel v)]
      \<and> source_nstack (snd (sound_al_updateVoice v st)) = source_nstack st
      \<and> source_stack (snd (sound_al_updateVoice v st)) = source_stack st
      \<and> fst (sound_al_updateVoice v st) = v)"
  by (simp add: sound_al_updateVoice_def Let_def alSourcei_def alSourcef_def alSourcefv_def
        nat_less_iff)

text \<open>The theorem at voice 5 on a stopped device, and on a playing one.\<close>

theorem updateVoice_sweep_witness:
  "calls (al (snd (sound_al_updateVoice voice5 (st_sweep dev_stopped))))
     = [AlSourcei 5 AL_BUFFER AL_NONE]
   \<and> source_nstack (snd (sound_al_updateVoice voice5 (st_sweep dev_stopped))) = 2
   \<and> source_stack (snd (sound_al_updateVoice voice5 (st_sweep dev_stopped))) ! 1 = 5
   \<and> v_source (fst (sound_al_updateVoice voice5 (st_sweep dev_stopped))) = 0
   \<and> v_state (fst (sound_al_updateVoice voice5 (st_sweep dev_stopped))) = VOICE_STOPPED
   \<and> calls (al (snd (sound_al_updateVoice voice5 (st_sweep dev_playing))))
     = [AlSourcef 5 AL_GAIN (1 / 2), AlSourcefv 5 AL_POSITION [3, 4, 0],
        AlSourcefv 5 AL_VELOCITY [1, 0, 0]]
   \<and> source_nstack (snd (sound_al_updateVoice voice5 (st_sweep dev_playing))) = 1
   \<and> fst (sound_al_updateVoice voice5 (st_sweep dev_playing)) = voice5"
  using updateVoice_sweep [of voice5 "st_sweep dev_stopped"]
        updateVoice_sweep [of voice5 "st_sweep dev_playing"]
  by (simp add: voice5_def st_sweep_def dev_stopped_def dev_playing_def alGetSourcei_state_def)

subsection \<open>Rounding\<close>

text \<open>
  Rounding to the nearest integer is monotone and odd, and so is the IEEE rounding:
  within a binade the spacing is fixed, and across binades the power of two between
  them separates the results.
\<close>

lemma rne_of_int [simp]: "rne (of_int m) = m"
  by (simp add: rne_def)

lemma rne_zero [simp]: "rne 0 = 0"
  by (simp add: rne_def)

lemma rne_mono: "a \<le> b \<Longrightarrow> rne a \<le> rne b"
proof -
  assume ab: "a \<le> b"
  then have fl: "\<lfloor>a\<rfloor> \<le> \<lfloor>b\<rfloor>" by (rule floor_mono)
  have la: "rne a \<le> \<lfloor>a\<rfloor> + 1" and lb: "\<lfloor>b\<rfloor> \<le> rne b"
    by (simp_all add: rne_def Let_def)
  show ?thesis
  proof (cases "\<lfloor>a\<rfloor> = \<lfloor>b\<rfloor>")
    case True
    with ab show ?thesis by (auto simp: rne_def Let_def)
  next
    case False
    with fl have "\<lfloor>a\<rfloor> + 1 \<le> \<lfloor>b\<rfloor>" by simp
    with la lb show ?thesis by linarith
  qed
qed

lemma rne_minus: "rne (- y) = - rne y"
proof (cases "y \<in> \<int>")
  case True
  then obtain m where "y = of_int m" by (auto elim: Ints_cases)
  then have "rne (- y) = rne (of_int (- m))" by simp
  also have "\<dots> = - m" by (rule rne_of_int)
  finally show ?thesis using \<open>y = of_int m\<close> by simp
next
  case False
  then have ne: "y \<noteq> of_int \<lfloor>y\<rfloor>"
    by (metis Ints_of_int)
  then have fl: "\<lfloor>- y\<rfloor> = - \<lfloor>y\<rfloor> - 1"
    by (simp add: floor_minus ceiling_altdef)
  have lo: "of_int \<lfloor>y\<rfloor> \<le> y" by simp
  from ne lo have "of_int \<lfloor>y\<rfloor> < y" by linarith
  then show ?thesis
    unfolding rne_def Let_def fl by auto
qed


lemma ieee_round_zero [simp]: "ieee_round p emin 0 = 0"
  by (simp add: ieee_round_def)

lemma ieee_round_minus: "ieee_round p emin (- x) = - ieee_round p emin x"
  by (simp add: ieee_round_def Let_def rne_minus)

lemma ieee_round_normal:
  assumes "2 powr of_int e \<le> \<bar>x\<bar>" and "\<bar>x\<bar> < 2 powr of_int (e + 1)" and "emin \<le> e"
  shows "ieee_round p emin x =
           of_int (rne (x / 2 powr of_int (e - int p + 1))) * 2 powr of_int (e - int p + 1)"
proof -
  from assms(1) have "0 < \<bar>x\<bar>"
    by (smt (verit) powr_gt_zero)
  then have x0: "x \<noteq> 0" by simp
  have "\<lfloor>log 2 \<bar>x\<bar>\<rfloor> = e"
    using assms(1,2) \<open>0 < \<bar>x\<bar>\<close> by (simp add: floor_log_eq_powr_iff)
  with assms(3) x0 show ?thesis
    by (simp add: ieee_round_def Let_def max_def)
qed








text \<open>The single-precision factor \<open>d\<close> at the elapsed times 10 and 20.\<close>

lemma binary32_zero: "binary32 0 = 0"
  by (simp add: binary32_def)




lemma binary32_tenth: "binary32 (1 / 10) = 13421773 / 134217728"
  unfolding binary32_def
  by (subst ieee_round_normal [where e = "- 4"]) (simp_all add: rne_def powr_neg_numeral)




subsection \<open>Fading a group out\<close>











text \<open>Without rounding the gain is \<open>(1 - f / 100)\<close> times the volume.\<close>

lemma fade_gain_exact:
  assumes "to_float fp = (\<lambda>x. x)" "to_double fp = (\<lambda>x. x)"
  shows "to_float fp (fade_d fp f * vol) = (1 - real (unat f) / 100) * vol"
  by (simp add: fade_d_def assms SOUND_FADEOUT_def)











subsection \<open>Pool exhaustion\<close>

text \<open>
  C8.  When the free pool is empty (\<open>source_nstack \<le> 0\<close>), \<open>sound_al_getSource\<close>
  returns the sentinel 0 and leaves the whole state as it was, and a play request
  through \<open>al_playVoice\<close>, \<open>sound_al_play\<close> or \<open>sound_al_playPos\<close> returns \<open>-1\<close>
  with the state unchanged, the list of device calls and the warnings included: the
  only effect is that the voice's source reference is 0.
\<close>

theorem getSource_exhausted:
  assumes "source_nstack st \<le> 0"
  shows "sound_al_getSource st = (0, st)
       \<and> al_playVoice v s px py vx vy relative st = (- 1, v\<lparr>v_source := 0\<rparr>, st)
       \<and> sound_al_play v s st = (- 1, v\<lparr>v_source := 0\<rparr>, st)
       \<and> sound_al_playPos v s px py vx vy st = (- 1, v\<lparr>v_source := 0\<rparr>, st)"
  using assms
  by (simp add: sound_al_getSource_def al_playVoice_def sound_al_play_def sound_al_playPos_def)

text \<open>The theorem on the pool whose two sources both belong to groups.\<close>

theorem getSource_exhausted_witness:
  "source_nstack st_groups \<le> 0
   \<and> sound_al_getSource st_groups = (0, st_groups)
   \<and> sound_al_play voice5 sound5 st_groups = (- 1, voice5\<lparr>v_source := 0\<rparr>, st_groups)
   \<and> sound_al_playPos voice5 sound5 3 4 1 0 st_groups
       = (- 1, voice5\<lparr>v_source := 0\<rparr>, st_groups)"
proof -
  have h: "source_nstack st_groups \<le> 0" by (simp add: st_groups_def)
  show ?thesis
    using h getSource_exhausted [OF h, of voice5 sound5 3 4 1 0] by simp
qed

subsection \<open>Stopping and pausing what is not playing\<close>

text \<open>A pause over members none of which is playing changes nothing.\<close>

lemma al_pausev_loop_noop:
  assumes "\<forall>k. i \<le> k \<and> int k < n \<longrightarrow> alGetSourcei_state (s ! k) dev \<noteq> AL_PLAYING"
  shows "al_pausev_loop i n s dev = dev"
  using assms
proof (induction i n s dev rule: al_pausev_loop.induct)
  case (1 i n s dev)
  show ?case
  proof (cases "int i < n")
    case True
    with "1.prems" have np: "alGetSourcei_state (s ! i) dev \<noteq> AL_PLAYING" by simp
    have "al_pausev_loop (Suc i) n s dev = dev"
      using "1.IH" [OF True refl] np "1.prems" by simp
    with True np show ?thesis by (subst al_pausev_loop.simps) simp
  next
    case False
    then show ?thesis by (subst al_pausev_loop.simps) simp
  qed
qed

text \<open>The loop never starts a source, and it leaves none of its members playing.\<close>

lemma al_pausev_loop_keeps_idle:
  "alGetSourcei_state x dev \<noteq> AL_PLAYING \<Longrightarrow>
   alGetSourcei_state x (al_pausev_loop i n s dev) \<noteq> AL_PLAYING"
proof (induction i n s dev rule: al_pausev_loop.induct)
  case (1 i n s dev)
  show ?case
  proof (cases "int i < n")
    case True
    define dev1 where "dev1 = (if alGetSourcei_state (s ! i) dev = AL_PLAYING
                               then alSourcePause (s ! i) dev else dev)"
    have "alGetSourcei_state x dev1 \<noteq> AL_PLAYING"
      using "1.prems" by (simp add: dev1_def alGetSourcei_state_def alSourcePause_def)
    then have "alGetSourcei_state x (al_pausev_loop (Suc i) n s dev1) \<noteq> AL_PLAYING"
      unfolding dev1_def by (rule "1.IH" [OF True refl])
    moreover have "al_pausev_loop i n s dev = al_pausev_loop (Suc i) n s dev1"
      using True by (subst al_pausev_loop.simps) (simp add: dev1_def Let_def)
    ultimately show ?thesis by simp
  next
    case False
    with "1.prems" show ?thesis by (subst al_pausev_loop.simps) simp
  qed
qed

lemma al_pausev_loop_pauses:
  "i \<le> k \<Longrightarrow> int k < n \<Longrightarrow>
   alGetSourcei_state (s ! k) (al_pausev_loop i n s dev) \<noteq> AL_PLAYING"
proof (induction i n s dev rule: al_pausev_loop.induct)
  case (1 i n s dev)
  define dev1 where "dev1 = (if alGetSourcei_state (s ! i) dev = AL_PLAYING
                             then alSourcePause (s ! i) dev else dev)"
  from "1.prems" have lt: "int i < n" by simp
  have step: "al_pausev_loop i n s dev = al_pausev_loop (Suc i) n s dev1"
    using lt by (subst al_pausev_loop.simps) (simp add: dev1_def Let_def)
  show ?case
  proof (cases "k = i")
    case True
    have "alGetSourcei_state (s ! i) dev1 \<noteq> AL_PLAYING"
      by (simp add: dev1_def alGetSourcei_state_def alSourcePause_def)
    then show ?thesis
      unfolding step True by (rule al_pausev_loop_keeps_idle)
  next
    case False
    with "1.prems" have "Suc i \<le> k" by simp
    from "1.IH" [OF lt refl this "1.prems"(2)] show ?thesis
      unfolding step dev1_def .
  qed
qed

text \<open>\<open>sound_al_pauseGroup\<close> pauses the members of the first group with the id.\<close>

lemma pauseGroup_loop_skip:
  assumes "i \<le> idx" "idx < length (al_groups st)"
      and "\<forall>k. i \<le> k \<and> k < idx \<longrightarrow> g_id (al_groups st ! k) \<noteq> grp"
  shows "pauseGroup_loop i grp st = pauseGroup_loop idx grp st"
  using assms
proof (induction i grp st rule: pauseGroup_loop.induct)
  case (1 i grp st)
  show ?case
  proof (cases "i = idx")
    case True
    then show ?thesis by simp
  next
    case False
    with "1.prems" have lt: "i < idx" by simp
    with "1.prems" have il: "i < length (al_groups st)" and ne: "g_id (al_groups st ! i) \<noteq> grp"
      by simp_all
    have "pauseGroup_loop i grp st = pauseGroup_loop (Suc i) grp st"
      using il ne by (subst pauseGroup_loop.simps) simp
    also have "\<dots> = pauseGroup_loop idx grp st"
      using "1.IH" [OF il ne] lt "1.prems" by simp
    finally show ?thesis .
  qed
qed

lemma pauseGroup_at:
  assumes "idx < length (al_groups st)" "g_id (al_groups st ! idx) = grp"
      and "\<forall>k<idx. g_id (al_groups st ! k) \<noteq> grp"
  shows "sound_al_pauseGroup grp st =
           st\<lparr>al := al_pausev (nsources (al_groups st ! idx)) (sources (al_groups st ! idx))
                       (al st)\<rparr>"
proof -
  have "sound_al_pauseGroup grp st = pauseGroup_loop idx grp st"
    unfolding sound_al_pauseGroup_def
    using assms by (intro pauseGroup_loop_skip) simp_all
  also have "\<dots> = st\<lparr>al := al_pausev (nsources (al_groups st ! idx))
                                  (sources (al_groups st ! idx)) (al st)\<rparr>"
    using assms(1,2) by (subst pauseGroup_loop.simps) simp
  finally show ?thesis .
qed

text \<open>
  C9.  \<open>sound_al_stop\<close> on a voice whose source reference is 0 returns the state it
  was given: no call reaches the device and no warning is logged.  \<open>al_pausev\<close> over
  \<open>n\<close> sources of an array, each of them paused or stopped, returns the device it
  was given, so it has issued no pause; and pausing twice is pausing once, whatever
  the sources were doing before.  The same for a group, the first with its id in the
  list: \<open>sound_al_pauseGroup\<close> on a group whose members are all paused or stopped
  returns the state it was given, and pausing a group twice is pausing it once.
\<close>

theorem stop_pause_noop:
  "(v_source voice = 0 \<longrightarrow> sound_al_stop voice st = st)
   \<and> (n \<le> int (length s)
        \<and> (\<forall>src \<in> set (take (nat n) s). alGetSourcei_state src dev = AL_PAUSED
                                          \<or> alGetSourcei_state src dev = AL_STOPPED)
      \<longrightarrow> al_pausev n s dev = dev)
   \<and> al_pausev n s (al_pausev n s dev) = al_pausev n s dev
   \<and> (idx < length (al_groups st) \<and> g_id (al_groups st ! idx) = grp
        \<and> (\<forall>k<idx. g_id (al_groups st ! k) \<noteq> grp)
        \<and> nsources (al_groups st ! idx) = int (length (sources (al_groups st ! idx)))
        \<and> (\<forall>src \<in> set (sources (al_groups st ! idx)).
              alGetSourcei_state src (al st) = AL_PAUSED
              \<or> alGetSourcei_state src (al st) = AL_STOPPED)
      \<longrightarrow> sound_al_pauseGroup grp st = st)
   \<and> (idx < length (al_groups st) \<and> g_id (al_groups st ! idx) = grp
        \<and> (\<forall>k<idx. g_id (al_groups st ! k) \<noteq> grp)
      \<longrightarrow> sound_al_pauseGroup grp (sound_al_pauseGroup grp st) = sound_al_pauseGroup grp st)"
proof -
  have quiet: "al_pausev n s dev = dev"
    if h: "n \<le> int (length s)"
          "\<forall>src \<in> set (take (nat n) s). alGetSourcei_state src dev = AL_PAUSED
                                        \<or> alGetSourcei_state src dev = AL_STOPPED"
    for n s dev
  proof -
    have "al_pausev_loop 0 n s dev = dev"
    proof (rule al_pausev_loop_noop, intro allI impI)
      fix k assume k: "0 \<le> k \<and> int k < n"
      with h(1) have "k < length (take (nat n) s)" by simp
      then have "take (nat n) s ! k \<in> set (take (nat n) s)" by (rule nth_mem)
      moreover from k have "take (nat n) s ! k = s ! k" by simp
      ultimately have "s ! k \<in> set (take (nat n) s)" by simp
      with h(2) have "alGetSourcei_state (s ! k) dev = AL_PAUSED
                   \<or> alGetSourcei_state (s ! k) dev = AL_STOPPED" by blast
      then show "alGetSourcei_state (s ! k) dev \<noteq> AL_PLAYING" by auto
    qed
    then show ?thesis by (simp add: al_pausev_def)
  qed
  have twice: "al_pausev n s (al_pausev n s dev) = al_pausev n s dev" for n s dev
    unfolding al_pausev_def
    by (rule al_pausev_loop_noop) (simp add: al_pausev_loop_pauses)
  show ?thesis
  proof (intro conjI impI)
    assume "v_source voice = 0"
    then show "sound_al_stop voice st = st" by (simp add: sound_al_stop_def)
  next
    assume "n \<le> int (length s)
        \<and> (\<forall>src \<in> set (take (nat n) s). alGetSourcei_state src dev = AL_PAUSED
                                          \<or> alGetSourcei_state src dev = AL_STOPPED)"
    then show "al_pausev n s dev = dev" by (intro quiet) simp_all
  next
    show "al_pausev n s (al_pausev n s dev) = al_pausev n s dev" by (rule twice)
  next
    assume h: "idx < length (al_groups st) \<and> g_id (al_groups st ! idx) = grp
        \<and> (\<forall>k<idx. g_id (al_groups st ! k) \<noteq> grp)
        \<and> nsources (al_groups st ! idx) = int (length (sources (al_groups st ! idx)))
        \<and> (\<forall>src \<in> set (sources (al_groups st ! idx)).
              alGetSourcei_state src (al st) = AL_PAUSED
              \<or> alGetSourcei_state src (al st) = AL_STOPPED)"
    then have at: "idx < length (al_groups st)" "g_id (al_groups st ! idx) = grp"
      "\<forall>k<idx. g_id (al_groups st ! k) \<noteq> grp" by simp_all
    from h have sized:
      "nsources (al_groups st ! idx) = int (length (sources (al_groups st ! idx)))" by blast
    have "al_pausev (nsources (al_groups st ! idx)) (sources (al_groups st ! idx)) (al st) = al st"
    proof (rule quiet)
      show "nsources (al_groups st ! idx) \<le> int (length (sources (al_groups st ! idx)))"
        using sized by simp
      show "\<forall>src \<in> set (take (nat (nsources (al_groups st ! idx)))
                            (sources (al_groups st ! idx))).
              alGetSourcei_state src (al st) = AL_PAUSED
              \<or> alGetSourcei_state src (al st) = AL_STOPPED"
        using h unfolding sized by simp
    qed
    then show "sound_al_pauseGroup grp st = st"
      unfolding pauseGroup_at [OF at] by simp
  next
    assume h: "idx < length (al_groups st) \<and> g_id (al_groups st ! idx) = grp
        \<and> (\<forall>k<idx. g_id (al_groups st ! k) \<noteq> grp)"
    then have at: "idx < length (al_groups st)" "g_id (al_groups st ! idx) = grp"
      "\<forall>k<idx. g_id (al_groups st ! k) \<noteq> grp" by simp_all
    define st1 where "st1 = sound_al_pauseGroup grp st"
    have st1: "st1 = st\<lparr>al := al_pausev (nsources (al_groups st ! idx))
                                  (sources (al_groups st ! idx)) (al st)\<rparr>"
      unfolding st1_def by (rule pauseGroup_at [OF at])
    have at1: "idx < length (al_groups st1)" "g_id (al_groups st1 ! idx) = grp"
      "\<forall>k<idx. g_id (al_groups st1 ! k) \<noteq> grp"
      using at by (simp_all add: st1)
    have "sound_al_pauseGroup grp st1 = st1"
      unfolding pauseGroup_at [OF at1] by (simp add: st1 twice)
    then show "sound_al_pauseGroup grp (sound_al_pauseGroup grp st) = sound_al_pauseGroup grp st"
      unfolding st1_def .
  qed
qed

text \<open>
  The theorem at a voice without a source, at two sources of which one is paused and
  one has stopped, and at the groups 1 and 2 whose members are these two sources.
\<close>

theorem stop_pause_noop_witness:
  "sound_al_stop voice0 st_two = st_two
   \<and> al_pausev 2 [1, 2] dev_mixed = dev_mixed
   \<and> al_pausev 2 [1, 2] (al_pausev 2 [1, 2] dev_playing) = al_pausev 2 [1, 2] dev_playing
   \<and> sound_al_pauseGroup 2 (st_groups\<lparr>al := dev_mixed\<rparr>) = st_groups\<lparr>al := dev_mixed\<rparr>
   \<and> sound_al_pauseGroup 1 (sound_al_pauseGroup 1 st_groups) = sound_al_pauseGroup 1 st_groups"
  using stop_pause_noop [of voice0 st_two 2 "[1, 2]" dev_mixed 0 1]
        stop_pause_noop [of voice0 st_two 2 "[1, 2]" dev_playing 0 1]
        stop_pause_noop [of voice0 "st_groups\<lparr>al := dev_mixed\<rparr>" 2 "[1, 2]" dev_mixed 1 2]
        stop_pause_noop [of voice0 st_groups 2 "[1, 2]" dev_mixed 0 1]
  by (simp add: voice0_def dev_mixed_def st_groups_def alGetSourcei_state_def)

subsection \<open>The global volume\<close>

text \<open>
  2 and \<open>-1\<close> are single-precision values; 1/10 is not one (no power of two is a
  multiple of 5).
\<close>

lemma representable32_2: "representable32 2"
  unfolding representable32_def
  by (rule exI [of _ 1], rule exI [of _ 1]) simp

lemma representable32_minus_1: "representable32 (- 1)"
  unfolding representable32_def
  by (rule exI [of _ "- 1"], rule exI [of _ 0]) simp

lemma not_representable32_tenth: "\<not> representable32 (1 / 10)"
proof
  assume "representable32 (1 / 10)"
  then obtain m e :: int where e: "- 149 \<le> e"
    and x: "(1 / 10 :: real) = of_int m * 2 powr of_int e"
    by (auto simp: representable32_def)
  define k where "k = nat (e + 149)"
  have "real_of_int e = real k - 149"
    using e by (simp add: k_def)
  then have "(2 :: real) powr of_int e = 2 ^ k / 2 ^ 149"
    by (simp add: powr_diff powr_realpow)
  with x have "(2 :: real) ^ 149 = 10 * of_int m * 2 ^ k"
    by (simp add: field_simps)
  then have "(of_int (2 ^ 149) :: real) = of_int (10 * m * 2 ^ k)"
    by simp
  then have eq: "(2 :: int) ^ 149 = 10 * m * 2 ^ k"
    by (simp only: of_int_eq_iff)
  have "(5 :: int) dvd 10 * m * 2 ^ k"
    by (rule dvd_mult2, rule dvd_mult2) simp
  then have "(5 :: int) dvd 2 ^ 149"
    unfolding eq .
  then show False
    by simp
qed

text \<open>
  The IEEE rounding keeps every single-precision value, and within the range of the
  format what it yields is a single-precision value; so there it changes a value
  exactly when the value is not a single-precision one.
\<close>

lemma binary32_representable:
  assumes "representable32 x"
  shows "binary32 x = x"
proof (cases "x = 0")
  case True
  then show ?thesis by (simp add: binary32_def)
next
  case False
  from assms obtain m e :: int where m: "\<bar>m\<bar> < 2 ^ 24" and e: "- 149 \<le> e"
    and x: "x = of_int m * 2 powr of_int e"
    by (auto simp: representable32_def)
  define ex where "ex = max (- 126) \<lfloor>log 2 \<bar>x\<bar>\<rfloor>"
  define q :: real where "q = 2 powr of_int (ex - 23)"
  have pos: "0 < \<bar>x\<bar>" using False by simp
  have "\<bar>x\<bar> = \<bar>of_int m\<bar> * 2 powr of_int e"
    by (simp add: x abs_mult)
  also have "\<dots> < 2 ^ 24 * 2 powr of_int e"
  proof -
    have "\<bar>real_of_int m\<bar> < 2 ^ 24"
      using m by (metis of_int_abs of_int_less_numeral_power_cancel_iff)
    then show ?thesis by simp
  qed
  also have "\<dots> = 2 powr of_int (e + 24)"
    by (simp add: powr_add powr_realpow [symmetric])
  finally have "log 2 \<bar>x\<bar> < of_int (e + 24)"
    using pos by (simp add: log_less_iff)
  then have "\<lfloor>log 2 \<bar>x\<bar>\<rfloor> \<le> e + 23"
    by linarith
  with e have k: "0 \<le> e - ex + 23"
    by (simp add: ex_def)
  define k where "k = nat (e - ex + 23)"
  have "real_of_int e - real_of_int (ex - 23) = real k"
    using k by (simp add: k_def)
  then have "2 powr of_int e / q = 2 ^ k"
    by (simp add: q_def powr_diff [symmetric] powr_realpow)
  then have "of_int m * (2 powr of_int e / q) = of_int m * 2 ^ k"
    by simp
  then have "x / q = of_int (m * 2 ^ k)"
    by (simp add: x)
  then have "rne (x / q) = m * 2 ^ k"
    by (simp only: rne_of_int)
  moreover have "binary32 x = of_int (rne (x / q)) * q"
    using False by (simp add: binary32_def ieee_round_def Let_def ex_def q_def)
  ultimately have "binary32 x = of_int (m * 2 ^ k) * q"
    by simp
  also have "\<dots> = (x / q) * q"
    using \<open>x / q = of_int (m * 2 ^ k)\<close> by simp
  also have "\<dots> = x"
    by (simp add: q_def)
  finally show ?thesis .
qed

lemma representable32_minus: "representable32 (- x) \<longleftrightarrow> representable32 x"
proof -
  have "representable32 (- y)" if "representable32 y" for y
  proof -
    from that obtain m e :: int where "\<bar>m\<bar> < 2 ^ 24" "- 149 \<le> e" "e \<le> 104"
      "y = of_int m * 2 powr of_int e"
      by (auto simp: representable32_def)
    then have "\<bar>- m\<bar> < 2 ^ 24 \<and> - 149 \<le> e \<and> e \<le> 104 \<and> - y = of_int (- m) * 2 powr of_int e"
      by simp
    then show ?thesis
      unfolding representable32_def by blast
  qed
  from this [of x] this [of "- x"] show ?thesis by auto
qed

lemma binary32_rounds_pos:
  assumes x: "0 < x" and le: "x \<le> FLT_MAX"
  shows "representable32 (binary32 x)"
proof -
  define ex where "ex = max (- 126) \<lfloor>log 2 \<bar>x\<bar>\<rfloor>"
  define q :: real where "q = 2 powr of_int (ex - 23)"
  define n where "n = rne (x / q)"
  have q0: "0 < q" by (simp add: q_def)
  have R: "binary32 x = of_int n * q"
    using x by (simp add: binary32_def ieee_round_def Let_def ex_def q_def n_def)
  have lo: "- 126 \<le> ex" by (simp add: ex_def)
  have "x < 2 ^ 128"
    using le by (simp add: FLT_MAX_def)
  then have "log 2 x < 128"
    using x by (simp add: log_less_iff)
  then have "\<lfloor>log 2 x\<rfloor> \<le> 127" by linarith
  then have hi: "ex \<le> 127" using x by (simp add: ex_def)
  have "\<lfloor>log 2 x\<rfloor> \<le> ex" using x by (simp add: ex_def)
  then have "log 2 x < of_int (ex + 1)" by linarith
  then have "x < 2 powr of_int (ex + 1)" using x by (simp add: log_less_iff)
  then have "x / q < 2 powr of_int (ex + 1) / q" using q0 by (simp add: divide_strict_right_mono)
  also have "2 powr of_int (ex + 1) / q = 2 ^ 24"
    by (simp add: q_def powr_diff [symmetric])
  finally have "x / q \<le> of_int (2 ^ 24)" by simp
  then have "rne (x / q) \<le> rne (of_int (2 ^ 24))" by (rule rne_mono)
  then have nhi: "n \<le> 2 ^ 24" unfolding n_def by (simp only: rne_of_int)
  have "0 \<le> x / q" using x q0 by simp
  then have "rne 0 \<le> rne (x / q)" by (rule rne_mono)
  then have nlo: "0 \<le> n" by (simp add: n_def)
  show ?thesis
  proof (cases "n < 2 ^ 24")
    case True
    with nlo have "\<bar>n\<bar> < 2 ^ 24" by simp
    moreover have "- 149 \<le> ex - 23" "ex - 23 \<le> 104" using lo hi by simp_all
    moreover have "binary32 x = of_int n * 2 powr of_int (ex - 23)" by (simp add: R q_def)
    ultimately show ?thesis unfolding representable32_def by blast
  next
    case False
    with nhi have n: "n = 2 ^ 24" by simp
    have "ex \<noteq> 127"
    proof
      assume top: "ex = 127"
      then have "q = 2 ^ 104" by (simp add: q_def)
      then have "x / q \<le> of_int (2 ^ 24 - 1)"
        using le by (simp add: FLT_MAX_def)
      then have "rne (x / q) \<le> rne (of_int (2 ^ 24 - 1))" by (rule rne_mono)
      then have "n \<le> 2 ^ 24 - 1" unfolding n_def by (simp only: rne_of_int)
      with n show False by simp
    qed
    with hi have hi': "ex - 22 \<le> 104" by simp
    have "binary32 x = 2 ^ 24 * 2 powr of_int (ex - 23)"
      by (simp add: R n q_def)
    also have "\<dots> = 2 ^ 23 * 2 powr of_int (ex - 22)"
    proof -
      have "(2::real) powr of_int (ex - 22) = 2 * 2 powr of_int (ex - 23)"
        using powr_add [of "2 :: real" 1 "of_int (ex - 23)"] by (simp add: algebra_simps)
      then show ?thesis by simp
    qed
    finally have "binary32 x = of_int (2 ^ 23) * 2 powr of_int (ex - 22)" by simp
    moreover have "\<bar>(2::int) ^ 23\<bar> < 2 ^ 24" by simp
    moreover have "- 149 \<le> ex - 22" using lo by simp
    ultimately show ?thesis unfolding representable32_def using hi' by blast
  qed
qed

lemma binary32_rounds:
  assumes "\<bar>x\<bar> \<le> FLT_MAX"
  shows "representable32 (binary32 x)"
proof -
  have zero: "representable32 0"
    unfolding representable32_def by (rule exI [of _ 0], rule exI [of _ 0]) simp
  consider "x = 0" | "0 < x" | "x < 0" by linarith
  then show ?thesis
  proof cases
    case 1
    then show ?thesis using zero by (simp add: binary32_def)
  next
    case 2
    with assms show ?thesis by (simp add: binary32_rounds_pos)
  next
    case 3
    with assms have "representable32 (binary32 (- x))" by (simp add: binary32_rounds_pos)
    then show ?thesis
      by (simp add: binary32_def ieee_round_minus representable32_minus)
  qed
qed

lemma binary32_fixpoint:
  assumes "\<bar>x\<bar> \<le> FLT_MAX"
  shows "binary32 x = x \<longleftrightarrow> representable32 x"
  using binary32_rounds [OF assms] binary32_representable [of x] by auto

lemma ieee_conversion:
  assumes "\<bar>v\<bar> \<le> FLT_MAX"
  shows "representable32 (to_float ieee v) \<and> (representable32 v \<longrightarrow> to_float ieee v = v)"
  using binary32_rounds [OF assms] binary32_representable [of v] by (simp add: ieee_def)

text \<open>
  The volumes of the fading examples are single-precision values, so
  \<open>sound_al_volume\<close> with the IEEE roundings sets each of them.
\<close>

lemma representable32_FLT_TRUE_MIN: "representable32 FLT_TRUE_MIN"
  unfolding representable32_def FLT_TRUE_MIN_def
  by (rule exI [of _ 1], rule exI [of _ "- 149"]) (simp add: powr_neg_numeral)

lemma volume_examples:
  "snd (sound_al_volume ieee 0 st_fading) = st_mute
   \<and> snd (sound_al_volume ieee FLT_TRUE_MIN st_fading) = st_faint
   \<and> snd (sound_al_volume ieee (- 1) st_fading) = st_inverted"
  using binary32_representable [OF representable32_FLT_TRUE_MIN]
        binary32_representable [OF representable32_minus_1]
  by (simp add: sound_al_volume_def ieee_def binary32_zero st_mute_def st_faint_def
        st_inverted_def)

text \<open>
  C10.  \<open>sound_al_volume\<close> returns 0 and changes nothing but the stored volume, which
  becomes the argument converted to single precision, whatever its size or sign: the
  device and the calls made on it are as before.  \<open>sound_al_getVolume\<close> then returns
  the stored value.  Where the conversion yields a single-precision value and keeps
  the values that are one, the value read back is a single-precision value, and it
  is the argument exactly when the argument is a single-precision value.
\<close>

theorem volume_roundtrip:
  "sound_al_volume fp v st = (0, st\<lparr>svolume := to_float fp v\<rparr>)
   \<and> al (snd (sound_al_volume fp v st)) = al st
   \<and> sound_al_getVolume (snd (sound_al_volume fp v st)) = to_float fp v
   \<and> (representable32 (to_float fp v) \<and> (representable32 v \<longrightarrow> to_float fp v = v) \<longrightarrow>
        representable32 (sound_al_getVolume (snd (sound_al_volume fp v st)))
        \<and> (sound_al_getVolume (snd (sound_al_volume fp v st)) = v \<longleftrightarrow> representable32 v))"
  by (auto simp: sound_al_volume_def sound_al_getVolume_def)

text \<open>
  The theorem with the IEEE roundings: the volumes 2 and \<open>-1\<close> are stored and read
  back as they are, and the volume 1/10 is read back as \<open>13421773 / 2^27\<close>, a
  single-precision value that is not 1/10.
\<close>

theorem volume_roundtrip_witness:
  "sound_al_volume ieee 2 st_fading = (0, st_fading\<lparr>svolume := 2\<rparr>)
   \<and> al (snd (sound_al_volume ieee 2 st_fading)) = al st_fading
   \<and> sound_al_getVolume (snd (sound_al_volume ieee 2 st_fading)) = 2
   \<and> sound_al_getVolume (snd (sound_al_volume ieee (- 1) st_fading)) = - 1
   \<and> sound_al_getVolume (snd (sound_al_volume ieee (1 / 10) st_fading)) = 13421773 / 134217728
   \<and> representable32 (sound_al_getVolume (snd (sound_al_volume ieee (1 / 10) st_fading)))
   \<and> sound_al_getVolume (snd (sound_al_volume ieee (1 / 10) st_fading)) \<noteq> 1 / 10
   \<and> representable32 2 \<and> representable32 (- 1) \<and> \<not> representable32 (1 / 10)"
proof -
  have two: "to_float ieee 2 = 2"
    using ieee_conversion [of 2] representable32_2 by (simp add: FLT_MAX_def)
  have minus: "to_float ieee (- 1) = - 1"
    using ieee_conversion [of "- 1"] representable32_minus_1 by (simp add: FLT_MAX_def)
  have tenth: "to_float ieee (1 / 10) = 13421773 / 134217728"
    by (simp only: ieee_def float_ops.select_convs binary32_tenth)
  have conv: "representable32 (to_float ieee (1 / 10))
      \<and> (representable32 (1 / 10) \<longrightarrow> to_float ieee (1 / 10) = 1 / 10)"
    by (rule ieee_conversion) (simp add: FLT_MAX_def)
  have a: "sound_al_volume ieee 2 st_fading = (0, st_fading\<lparr>svolume := 2\<rparr>)"
    using volume_roundtrip [of ieee 2 st_fading, THEN conjunct1] unfolding two .
  have b: "al (snd (sound_al_volume ieee 2 st_fading)) = al st_fading"
    using volume_roundtrip [of ieee 2 st_fading, THEN conjunct2, THEN conjunct1] .
  have c: "sound_al_getVolume (snd (sound_al_volume ieee 2 st_fading)) = 2"
    using volume_roundtrip [of ieee 2 st_fading, THEN conjunct2, THEN conjunct2, THEN conjunct1]
    unfolding two .
  have d: "sound_al_getVolume (snd (sound_al_volume ieee (- 1) st_fading)) = - 1"
    using volume_roundtrip [of ieee "- 1" st_fading, THEN conjunct2, THEN conjunct2, THEN conjunct1]
    unfolding minus .
  have e: "sound_al_getVolume (snd (sound_al_volume ieee (1 / 10) st_fading))
             = 13421773 / 134217728"
    using volume_roundtrip [of ieee "1 / 10" st_fading, THEN conjunct2, THEN conjunct2, THEN conjunct1]
    unfolding tenth .
  have readback: "representable32 (sound_al_getVolume (snd (sound_al_volume ieee (1 / 10) st_fading)))
      \<and> (sound_al_getVolume (snd (sound_al_volume ieee (1 / 10) st_fading)) = 1 / 10
            \<longleftrightarrow> representable32 (1 / 10))"
    using volume_roundtrip [of ieee "1 / 10" st_fading, THEN conjunct2, THEN conjunct2, THEN conjunct2]
          conv
    by blast
  from readback have f: "representable32 (sound_al_getVolume (snd (sound_al_volume ieee (1 / 10) st_fading)))"
    by (rule conjunct1)
  from readback have g: "sound_al_getVolume (snd (sound_al_volume ieee (1 / 10) st_fading)) \<noteq> 1 / 10"
    using not_representable32_tenth by simp
  from a b c d e f g representable32_2 representable32_minus_1 not_representable32_tenth
  show ?thesis by (intro conjI)
qed

end
